theory Spec2Isabelle
  imports Main
begin

section \<open>Python strings\<close>

text \<open>
  A Python \<open>str\<close> is a \<open>string\<close> (a list of characters). The three string
  operations the exporter's \<open>url_short_form\<close> uses are written out:
  \<open>s.split(sep)\<close> and \<open>s.split(sep, 1)\<close> for a one-character separator, and
  \<open>sep.join(pieces)\<close>.
\<close>

fun py_split :: "char \<Rightarrow> string \<Rightarrow> string list" where
  "py_split sep [] = [[]]"
| "py_split sep (c # cs) =
     (if c = sep then [] # py_split sep cs
      else (case py_split sep cs of
              [] \<Rightarrow> [[c]]
            | p # ps \<Rightarrow> (c # p) # ps))"

fun py_split1 :: "char \<Rightarrow> string \<Rightarrow> string list" where
  "py_split1 sep [] = [[]]"
| "py_split1 sep (c # cs) =
     (if c = sep then [[], cs]
      else (case py_split1 sep cs of
              [] \<Rightarrow> [[c]]
            | p # ps \<Rightarrow> (c # p) # ps))"

fun py_join :: "string \<Rightarrow> string list \<Rightarrow> string" where
  "py_join sep [] = []"
| "py_join sep [p] = p"
| "py_join sep (p # q # ps) = p @ sep @ py_join sep (q # ps)"

text \<open>
  \<open>range(start, stop, step)\<close> for a positive step. (Python raises \<open>ValueError\<close> for
  a zero step; the only step the program uses is the constant \<open>chunk_size\<close>.)
\<close>

function py_range :: "nat \<Rightarrow> nat \<Rightarrow> nat \<Rightarrow> nat list" where
  "py_range i stop step =
     (if step = 0 \<or> stop \<le> i then [] else i # py_range (i + step) stop step)"
  by pat_completeness auto
termination
  by (relation "measure (\<lambda>(i, stop, step). stop - i)") auto

declare py_range.simps [simp del]

section \<open>Python values, exceptions and effects\<close>

text \<open>
  The values the importer reads from the exported JSON files and from the responses of
  the MusicBrainz client are Python objects built from \<open>None\<close>, booleans, integers,
  strings, lists and dictionaries with string keys. (Floating-point numbers are left
  out; the program reads none.) A dictionary is an association list in insertion order,
  read with \<open>map_of\<close>.
\<close>

datatype pyval =
    PNone
  | PBool bool
  | PInt int
  | PStr string
  | PList "pyval list"
  | PDict "(string \<times> pyval) list"

datatype py_error =
    KeyError | IndexError | TypeError | ValueError | AttributeError | NameError
  | ResponseError  \<comment> \<open>\<open>musicbrainzngs.musicbrainz.ResponseError\<close>\<close>
  | OtherError     \<comment> \<open>any other exception of a library or of the network\<close>

text \<open>
  What the program does to the outside is recorded as a list of events, in the order
  they happen. A computation returns the events it produced and either the exception
  it raised or its value.
\<close>

datatype event =
    Printed "pyval list"   \<comment> \<open>a \<open>print\<close>; the pieces of the formatted line, in order\<close>
  | BrowseUrls string "string list"
  | GetReleaseById pyval "string list"
  | SearchReleaseGroups pyval pyval
  | MbPut string
  | SubmitRatings "(pyval \<times> int) list"
  | WriteFile string pyval
  | ReleaseMasterUrl string
  | Sleep

type_synonym 'a res = "py_error + 'a"
type_synonym 'a act = "event list \<times> 'a res"

definition bindE :: "'a res \<Rightarrow> ('a \<Rightarrow> 'b res) \<Rightarrow> 'b res" where
  "bindE r f = (case r of Inl e \<Rightarrow> Inl e | Inr x \<Rightarrow> f x)"

definition ret :: "'a \<Rightarrow> 'a act" where
  "ret x = ([], Inr x)"

definition pure :: "'a res \<Rightarrow> 'a act" where
  "pure r = ([], r)"

definition call :: "event \<Rightarrow> 'a res \<Rightarrow> 'a act" where
  "call ev r = ([ev], r)"

definition bind :: "'a act \<Rightarrow> ('a \<Rightarrow> 'b act) \<Rightarrow> 'b act" where
  "bind m f =
     (case m of
        (t, Inl e) \<Rightarrow> (t, Inl e)
      | (t, Inr x) \<Rightarrow> (case f x of (t', r) \<Rightarrow> (t @ t', r)))"

subsection \<open>Operations on Python values\<close>

text \<open>
  \<open>x[key]\<close> for a string key: a dictionary without the key raises \<open>KeyError\<close>, every other
  value raises \<open>TypeError\<close> (a list or a string wants an integer index; \<open>None\<close>, a
  boolean and an integer are not subscriptable).
\<close>

fun subscript :: "pyval \<Rightarrow> string \<Rightarrow> pyval res" where
  "subscript (PDict d) key = (case map_of d key of None \<Rightarrow> Inl KeyError | Some v \<Rightarrow> Inr v)"
| "subscript v key = Inl TypeError"

text \<open>\<open>x.get(key)\<close>: only a dictionary has the method.\<close>

fun dict_get :: "pyval \<Rightarrow> string \<Rightarrow> pyval res" where
  "dict_get (PDict d) key = Inr (case map_of d key of None \<Rightarrow> PNone | Some v \<Rightarrow> v)"
| "dict_get v key = Inl AttributeError"

text \<open>\<open>x[0]\<close>. A dictionary has string keys only, so \<open>0\<close> is never one of them.\<close>

fun index0 :: "pyval \<Rightarrow> pyval res" where
  "index0 (PList []) = Inl IndexError"
| "index0 (PList (x # xs)) = Inr x"
| "index0 (PStr []) = Inl IndexError"
| "index0 (PStr (c # cs)) = Inr (PStr [c])"
| "index0 (PDict d) = Inl KeyError"
| "index0 v = Inl TypeError"

text \<open>The truth value of an object, as \<open>if x:\<close> and \<open>not x\<close> take it.\<close>

fun truthy :: "pyval \<Rightarrow> bool" where
  "truthy PNone = False"
| "truthy (PBool b) = b"
| "truthy (PInt i) = (i \<noteq> 0)"
| "truthy (PStr s) = (s \<noteq> [])"
| "truthy (PList xs) = (xs \<noteq> [])"
| "truthy (PDict d) = (d \<noteq> [])"

text \<open>
  The items a \<open>for\<close> loop or a comprehension draws from an object: the elements of a
  list, the keys of a dictionary in insertion order, the characters of a string.
\<close>

fun dict_keys :: "(string \<times> pyval) list \<Rightarrow> string list" where
  "dict_keys [] = []"
| "dict_keys ((k, v) # d) = k # filter (\<lambda>k'. k' \<noteq> k) (dict_keys d)"

fun py_iter :: "pyval \<Rightarrow> pyval list res" where
  "py_iter (PList xs) = Inr xs"
| "py_iter (PDict d) = Inr (map PStr (dict_keys d))"
| "py_iter (PStr s) = Inr (map (\<lambda>c. PStr [c]) s)"
| "py_iter v = Inl TypeError"

text \<open>\<open>x == "literal"\<close> and \<open>n == x\<close> for an integer \<open>n\<close> (\<open>True == 1\<close> in Python).\<close>

fun py_eq_str :: "pyval \<Rightarrow> string \<Rightarrow> bool" where
  "py_eq_str (PStr s) lit = (s = lit)"
| "py_eq_str v lit = False"


text \<open>
  \<open>int(x)\<close>. A string is stripped of surrounding white space (for an ASCII string the
  space and the characters \<open>\t\<close>, \<open>\n\<close>, \<open>\v\<close>, \<open>\f\<close>, \<open>\r\<close>) and read as an optional
  sign and decimal digits, single underscores allowed between digits; anything else
  raises \<open>ValueError\<close>. (Characters are ASCII here: the digits and spaces of other
  scripts, which Python also accepts, are outside the model.)
\<close>

definition digit_val :: "char \<Rightarrow> nat option" where
  "digit_val c = map_of (zip ''0123456789'' [0, 1, 2, 3, 4, 5, 6, 7, 8, 9]) c"

fun parse_digits :: "nat \<Rightarrow> string \<Rightarrow> nat option" where
  "parse_digits acc [] = Some acc"
| "parse_digits acc (c # cs) =
     (case digit_val c of
        Some d \<Rightarrow> parse_digits (10 * acc + d) cs
      | None \<Rightarrow>
          (if c = CHR ''_'' then
             (case cs of
                [] \<Rightarrow> None
              | c' # cs' \<Rightarrow> (case digit_val c' of None \<Rightarrow> None | Some d \<Rightarrow> parse_digits acc cs))
           else None))"

definition parse_nat :: "string \<Rightarrow> nat option" where
  "parse_nat s =
     (case s of
        [] \<Rightarrow> None
      | c # cs \<Rightarrow> (case digit_val c of None \<Rightarrow> None | Some d \<Rightarrow> parse_digits d cs))"

definition is_space :: "char \<Rightarrow> bool" where
  "is_space c =
     (c = CHR '' '' \<or> c = CHR 0x09 \<or> c = CHR 0x0A \<or> c = CHR 0x0B \<or> c = CHR 0x0C
      \<or> c = CHR 0x0D)"

definition strip :: "string \<Rightarrow> string" where
  "strip s = rev (dropWhile is_space (rev (dropWhile is_space s)))"

definition int_of_str :: "string \<Rightarrow> int option" where
  "int_of_str s =
     (case strip s of
        [] \<Rightarrow> None
      | c # cs \<Rightarrow>
          (if c = CHR ''-'' then map_option (\<lambda>n. - int n) (parse_nat cs)
           else if c = CHR ''+'' then map_option int (parse_nat cs)
           else map_option int (parse_nat (c # cs))))"

fun py_int :: "pyval \<Rightarrow> int res" where
  "py_int (PInt i) = Inr i"
| "py_int (PBool b) = Inr (if b then 1 else 0)"
| "py_int (PStr s) = (case int_of_str s of None \<Rightarrow> Inl ValueError | Some i \<Rightarrow> Inr i)"
| "py_int v = Inl TypeError"

section \<open>The importer: \<open>add_release_groups_to_collection\<close>\<close>

text \<open>
  \<^verbatim>\<open>
  def add_release_groups_to_collection(collection, release_groups=[]):
      chunk_size = 200
      for index in range(0, len(release_groups), chunk_size):
          chunk = release_groups[index:index + chunk_size + 1]
          print(chunk[-1])
          release_group_list = ";".join(chunk)
          _do_mb_put(f"collection/{collection}/release-groups/{release_group_list}")
  \<close>
  The collection and the release groups are MBIDs, strings. \<open>_do_mb_put\<close> belongs to
  the client library: it is a parameter, and an exception it raises ends the loop.
\<close>

definition chunk_size :: nat where
  "chunk_size = 200"

fun submit_chunks ::
  "(string \<Rightarrow> unit res) \<Rightarrow> string \<Rightarrow> string list \<Rightarrow> nat list \<Rightarrow> unit act" where
  "submit_chunks do_mb_put collection release_groups [] = ret ()"
| "submit_chunks do_mb_put collection release_groups (index # indices) =
     (let chunk = take (chunk_size + 1) (drop index release_groups) in
      bind (pure (if chunk = [] then Inl IndexError else Inr (last chunk))) (\<lambda>l.
      bind (call (Printed [PStr l]) (Inr ())) (\<lambda>_.
      let release_group_list = py_join '';'' chunk;
          path = ''collection/'' @ collection @ ''/release-groups/'' @ release_group_list in
      bind (call (MbPut path) (do_mb_put path)) (\<lambda>_.
      submit_chunks do_mb_put collection release_groups indices))))"

definition add_release_groups_to_collection ::
  "(string \<Rightarrow> unit res) \<Rightarrow> string \<Rightarrow> string list \<Rightarrow> unit act" where
  "add_release_groups_to_collection do_mb_put collection release_groups =
     submit_chunks do_mb_put collection release_groups
       (py_range 0 (length release_groups) chunk_size)"

text \<open>The paths of the requests of a run, read off its events.\<close>

fun put_requests :: "event list \<Rightarrow> string list" where
  "put_requests [] = []"
| "put_requests (MbPut path # evs) = path # put_requests evs"
| "put_requests (ev # evs) = put_requests evs"

text \<open>Four hundred and fifty distinct identifiers, and a client whose requests succeed.\<close>

definition sample_mbid :: "nat \<Rightarrow> string" where
  "sample_mbid n = replicate (Suc n) (CHR ''a'')"

definition sample_release_groups :: "string list" where
  "sample_release_groups = map sample_mbid [0..<450]"

definition put_ok :: "string \<Rightarrow> unit res" where
  "put_ok path = Inr ()"

section \<open>The exporter: \<open>DiscogsHtmlClient.url_short_form\<close>\<close>

text \<open>
  \<^verbatim>\<open>
  def url_short_form(url_path):
      pieces = url_path.split("/")
      pieces[-1] = pieces[-1].split("-", 1)[0]
      return "/".join(pieces)
  \<close>
  \<open>split\<close> never returns an empty list (lemmas \<open>py_split_not_Nil\<close> and
  \<open>py_split1_not_Nil\<close> below), so \<open>pieces[-1]\<close> and \<open>[0]\<close> never raise: the last
  element is \<open>last pieces\<close>, the assignment replaces it, and \<open>[0]\<close> is \<open>hd\<close>.
\<close>

definition url_short_form :: "string \<Rightarrow> string" where
  "url_short_form url_path =
     (let pieces = py_split (CHR ''/'') url_path;
          pieces = butlast pieces @ [hd (py_split1 (CHR ''-'') (last pieces))]
      in py_join ''/'' pieces)"

section \<open>The exporter: paginated retrieval\<close>









section \<open>The importer: looking identifiers up by Discogs URL\<close>

text \<open>
  \<open>s.replace(old, new)\<close> and \<open>s.replace(old, new, 1)\<close>; \<open>s.startswith(p)\<close>.
\<close>

function str_replace :: "string \<Rightarrow> string \<Rightarrow> string \<Rightarrow> string" where
  "str_replace old new [] = (if old = [] then new else [])"
| "str_replace old new (c # cs) =
     (if old = [] then new @ c # str_replace old new cs
      else if take (length old) (c # cs) = old
      then new @ str_replace old new (drop (length old) (c # cs))
      else c # str_replace old new cs)"
  by pat_completeness auto
termination
  by (relation "measure (\<lambda>(old, new, s). length s)") auto

fun str_replace_first :: "string \<Rightarrow> string \<Rightarrow> string \<Rightarrow> string" where
  "str_replace_first old new [] = (if old = [] then new else [])"
| "str_replace_first old new (c # cs) =
     (if take (length old) (c # cs) = old then new @ drop (length old) (c # cs)
      else c # str_replace_first old new cs)"

definition startswith :: "string \<Rightarrow> string \<Rightarrow> bool" where
  "startswith s p = (take (length p) s = p)"

text \<open>
  \<open>urllib.parse.urlparse\<close> and \<open>urlunparse\<close>, and the calls of the \<open>musicbrainzngs\<close>
  client, belong to libraries and to the MusicBrainz service: they are parameters. A
  call of the client returns a value or raises; its answer depends on the request only.
\<close>

record parsed_url =
  url_scheme :: string
  url_netloc :: string
  url_path :: string
  url_params :: string
  url_query :: string
  url_fragment :: string

record world =
  urlparse :: "pyval \<Rightarrow> parsed_url res"
  urlunparse :: "parsed_url \<Rightarrow> string"
  browse_urls :: "string \<Rightarrow> string list \<Rightarrow> pyval res"
  get_release_by_id :: "pyval \<Rightarrow> string list \<Rightarrow> pyval res"
  search_release_groups :: "pyval \<Rightarrow> pyval \<Rightarrow> pyval res"
  submit_ratings :: "(pyval \<times> int) list \<Rightarrow> unit res"

text \<open>
  \<^verbatim>\<open>
  def discog_api_url_to_www(api_url):
      parsed = urllib.parse.urlparse(api_url)
      fixed = parsed._replace(netloc=parsed.netloc.replace("api", "www"))
      if parsed.path.startswith("/releases"):
          fixed = fixed._replace(path=parsed.path.replace("releases", "release", 1))
      elif parsed.path.startswith("/masters"):
          fixed = fixed._replace(path=parsed.path.replace("masters", "master", 1))
      elif parsed.path.startswith("/artists"):
          fixed = fixed._replace(path=parsed.path.replace("artists", "artist", 1))
      return urllib.parse.urlunparse(fixed)
  \<close>
\<close>

definition discog_api_url_to_www :: "world \<Rightarrow> pyval \<Rightarrow> string res" where
  "discog_api_url_to_www w api_url =
     bindE (urlparse w api_url) (\<lambda>parsed.
       let fixed = parsed\<lparr>url_netloc := str_replace ''api'' ''www'' (url_netloc parsed)\<rparr>;
           fixed =
             (if startswith (url_path parsed) ''/releases''
              then fixed\<lparr>url_path := str_replace_first ''releases'' ''release'' (url_path parsed)\<rparr>
              else if startswith (url_path parsed) ''/masters''
              then fixed\<lparr>url_path := str_replace_first ''masters'' ''master'' (url_path parsed)\<rparr>
              else if startswith (url_path parsed) ''/artists''
              then fixed\<lparr>url_path := str_replace_first ''artists'' ''artist'' (url_path parsed)\<rparr>
              else fixed)
       in Inr (urlunparse w fixed))"

text \<open>
  \<^verbatim>\<open>
  def lookup_mbid_by_discog_url(url, type_name):
      uri = discog_api_url_to_www(url)
      includes = [f"{type_name}-rels"]
      try:
          result = musicbrainzngs.browse_urls(uri, includes=includes)
      except musicbrainzngs.musicbrainz.ResponseError:
          return None
      relation_list = result["url"][f"{type_name.replace('-', '_')}-relation-list"]
      connection = next((relation for relation in relation_list
                         if relation["type"] == "discogs"), None)
      return connection[type_name]["id"] if connection else None
  \<close>
\<close>

fun first_discogs :: "pyval list \<Rightarrow> pyval res" where
  "first_discogs [] = Inr PNone"
| "first_discogs (relation # relations) =
     bindE (subscript relation ''type'') (\<lambda>t.
       if py_eq_str t ''discogs'' then Inr relation else first_discogs relations)"

definition connection_id :: "pyval \<Rightarrow> string \<Rightarrow> pyval res" where
  "connection_id result type_name =
     bindE (subscript result ''url'') (\<lambda>u.
     bindE (subscript u (str_replace ''-'' ''_'' type_name @ ''-relation-list'')) (\<lambda>relation_list.
     bindE (py_iter relation_list) (\<lambda>relations.
     bindE (first_discogs relations) (\<lambda>connection.
       if truthy connection
       then bindE (subscript connection type_name) (\<lambda>target. subscript target ''id'')
       else Inr PNone))))"

definition lookup_mbid_by_discog_url :: "world \<Rightarrow> pyval \<Rightarrow> string \<Rightarrow> pyval act" where
  "lookup_mbid_by_discog_url w url type_name =
     bind (pure (discog_api_url_to_www w url)) (\<lambda>uri.
       let includes = [type_name @ ''-rels''] in
       (case browse_urls w uri includes of
          Inl e \<Rightarrow>
            if e = ResponseError then ([BrowseUrls uri includes], Inr PNone)
            else ([BrowseUrls uri includes], Inl e)
        | Inr result \<Rightarrow> ([BrowseUrls uri includes], connection_id result type_name)))"

text \<open>
  \<^verbatim>\<open>
  def lookup_artist_mbids(discog_entry):
      return [lookup_mbid_by_discog_url(artist["url"], "artist")
              for artist in discog_entry["artists"]]

  def lookup_release_mbid(discog_entry):
      return lookup_mbid_by_discog_url(discog_entry["release"]["url"], "release")

  def _get_master_mbid(master_url):
      return lookup_mbid_by_discog_url(master_url, "release-group")
  \<close>
  (\<open>_get_master_mbid\<close> is \<open>get_master_mbid\<close> here, and the exporter's
  \<open>_get_master_url\<close> is \<open>get_master_url\<close>: a name cannot start with an underscore.)
\<close>

fun lookup_each_artist :: "world \<Rightarrow> pyval list \<Rightarrow> pyval list act" where
  "lookup_each_artist w [] = ret []"
| "lookup_each_artist w (artist # artists) =
     bind (pure (subscript artist ''url'')) (\<lambda>url.
     bind (lookup_mbid_by_discog_url w url ''artist'') (\<lambda>mbid.
     bind (lookup_each_artist w artists) (\<lambda>mbids.
     ret (mbid # mbids))))"

definition lookup_artist_mbids :: "world \<Rightarrow> pyval \<Rightarrow> pyval list act" where
  "lookup_artist_mbids w discog_entry =
     bind (pure (bindE (subscript discog_entry ''artists'') py_iter)) (\<lambda>artists.
     lookup_each_artist w artists)"

definition lookup_release_mbid :: "world \<Rightarrow> pyval \<Rightarrow> pyval act" where
  "lookup_release_mbid w discog_entry =
     bind (pure (bindE (subscript discog_entry ''release'') (\<lambda>r. subscript r ''url''))) (\<lambda>url.
     lookup_mbid_by_discog_url w url ''release'')"

definition get_master_mbid :: "world \<Rightarrow> pyval \<Rightarrow> pyval act" where
  "get_master_mbid w master_url = lookup_mbid_by_discog_url w master_url ''release-group''"

section \<open>The importer: fuzzy search and the resolution cascade\<close>

text \<open>
  \<^verbatim>\<open>
  def search_release_group_by_artists(discog_entry, artist_mbids):
      def release_group_info(release_group):
          return {
              "name": release_group['title'],
              "artist": release_group['artist-credit-phrase'],
              "id": release_group['id']
          }

      rg_results = []
      for artist_mbid in artist_mbids:
          search_results = musicbrainzngs.search_release_groups(
              discog_entry["release"]["name"], arid=artist_mbid)
          release_group_list = search_results["release-group-list"]
          if int(release_group_list[0]["ext:score"]) > 95:
              return [release_group_info(release_group_list[0])]

          rg_results.extend([release_group_info(rg) for rg in release_group_list
                             if int(rg["ext:score"]) >= 75])

      return sorted(rg_results, key=lambda rg: int(rg["ext:score"]), reverse=True)
  \<close>
  \<open>sorted\<close> computes the key of every element, in order, before it sorts; it is stable,
  also with \<open>reverse=True\<close>, so it is the stable sort by the negated key.
\<close>

definition release_group_info :: "pyval \<Rightarrow> pyval res" where
  "release_group_info release_group =
     bindE (subscript release_group ''title'') (\<lambda>name.
     bindE (subscript release_group ''artist-credit-phrase'') (\<lambda>artist.
     bindE (subscript release_group ''id'') (\<lambda>mbid.
     Inr (PDict [(''name'', name), (''artist'', artist), (''id'', mbid)]))))"

definition ext_score :: "pyval \<Rightarrow> int res" where
  "ext_score rg = bindE (subscript rg ''ext:score'') py_int"

fun qualifying :: "pyval list \<Rightarrow> pyval list res" where
  "qualifying [] = Inr []"
| "qualifying (rg # rgs) =
     bindE (ext_score rg) (\<lambda>score.
       if score \<ge> 75
       then bindE (release_group_info rg) (\<lambda>info.
            bindE (qualifying rgs) (\<lambda>infos. Inr (info # infos)))
       else qualifying rgs)"

fun sort_keys :: "pyval list \<Rightarrow> (int \<times> pyval) list res" where
  "sort_keys [] = Inr []"
| "sort_keys (rg # rgs) =
     bindE (ext_score rg) (\<lambda>k.
     bindE (sort_keys rgs) (\<lambda>ks. Inr ((k, rg) # ks)))"

definition sorted_by_score_desc :: "pyval list \<Rightarrow> pyval list res" where
  "sorted_by_score_desc rgs =
     bindE (sort_keys rgs) (\<lambda>ks. Inr (map snd (sort_key (\<lambda>p. - fst p) ks)))"

fun search_each_artist :: "world \<Rightarrow> pyval \<Rightarrow> pyval list \<Rightarrow> pyval list \<Rightarrow> pyval list act" where
  "search_each_artist w discog_entry [] rg_results = pure (sorted_by_score_desc rg_results)"
| "search_each_artist w discog_entry (artist_mbid # artist_mbids) rg_results =
     bind (pure (bindE (subscript discog_entry ''release'') (\<lambda>r. subscript r ''name''))) (\<lambda>name.
     bind (call (SearchReleaseGroups name artist_mbid)
             (search_release_groups w name artist_mbid)) (\<lambda>search_results.
     bind (pure (subscript search_results ''release-group-list'')) (\<lambda>release_group_list.
     bind (pure (bindE (index0 release_group_list) ext_score)) (\<lambda>score.
       if score > 95
       then pure (bindE (index0 release_group_list) (\<lambda>top.
                  bindE (release_group_info top) (\<lambda>info. Inr [info])))
       else bind (pure (bindE (py_iter release_group_list) qualifying)) (\<lambda>infos.
            search_each_artist w discog_entry artist_mbids (rg_results @ infos))))))"

definition search_release_group_by_artists :: "world \<Rightarrow> pyval \<Rightarrow> pyval list \<Rightarrow> pyval list act" where
  "search_release_group_by_artists w discog_entry artist_mbids =
     search_each_artist w discog_entry artist_mbids []"

text \<open>
  \<^verbatim>\<open>
  def lookup_master_mbid(discog_entry):
      master_id = None
      master_url = discog_entry["release"].get("master_url")
      if master_url:
          master_id = _get_master_mbid(master_url)
      if not master_id:
          release_id = lookup_release_mbid(discog_entry)
          if release_id:
              result = musicbrainzngs.get_release_by_id(release_id, includes=["release-groups"])
              master_id = result["release"]["release-group"]["id"]
      if not master_id:
          artist_ids = lookup_artist_mbids(discog_entry)
          results = search_release_group_by_artists(discog_entry, artist_ids)
          if len(results) == 1:
              master_id = results[0]["id"]
          else:
              print(f"Candidates for {discog_entry['release']['name']} by "
                    f"{discog_entry['artist']['name']}:")
              for info in results:
                  print(f"{info['name']} by {info['artist']}: {info['id']}")
      return master_id
  \<close>
  The three strategies are the three \<open>if\<close> blocks. (\<open>results[0]\<close> is read only when
  \<open>results\<close> has one element: it is \<open>results ! 0\<close>.)
\<close>

fun print_candidates :: "pyval list \<Rightarrow> unit act" where
  "print_candidates [] = ret ()"
| "print_candidates (info # infos) =
     bind (pure (bindE (subscript info ''name'') (\<lambda>name.
                 bindE (subscript info ''artist'') (\<lambda>artist.
                 bindE (subscript info ''id'') (\<lambda>mbid.
                 Inr [name, PStr '' by '', artist, PStr '': '', mbid]))))) (\<lambda>line.
     bind (call (Printed line) (Inr ())) (\<lambda>_.
     print_candidates infos))"

definition candidates_header :: "pyval \<Rightarrow> pyval list res" where
  "candidates_header discog_entry =
     bindE (subscript discog_entry ''release'') (\<lambda>release.
     bindE (subscript release ''name'') (\<lambda>name.
     bindE (subscript discog_entry ''artist'') (\<lambda>artist.
     bindE (subscript artist ''name'') (\<lambda>artist_name.
     Inr [PStr ''Candidates for '', name, PStr '' by '', artist_name, PStr '':'']))))"

definition release_then_group :: "world \<Rightarrow> pyval \<Rightarrow> pyval \<Rightarrow> pyval act" where
  "release_then_group w discog_entry master_id =
     bind (lookup_release_mbid w discog_entry) (\<lambda>release_id.
       if truthy release_id
       then bind (call (GetReleaseById release_id [''release-groups''])
                    (get_release_by_id w release_id [''release-groups''])) (\<lambda>result.
            pure (bindE (subscript result ''release'') (\<lambda>release.
                  bindE (subscript release ''release-group'') (\<lambda>release_group.
                  subscript release_group ''id''))))
       else ret master_id)"

definition fuzzy_search :: "world \<Rightarrow> pyval \<Rightarrow> pyval \<Rightarrow> pyval act" where
  "fuzzy_search w discog_entry master_id =
     bind (lookup_artist_mbids w discog_entry) (\<lambda>artist_ids.
     bind (search_release_group_by_artists w discog_entry artist_ids) (\<lambda>results.
       if length results = 1 then pure (subscript (results ! 0) ''id'')
       else bind (pure (candidates_header discog_entry)) (\<lambda>line.
            bind (call (Printed line) (Inr ())) (\<lambda>_.
            bind (print_candidates results) (\<lambda>_.
            ret master_id)))))"

definition lookup_master_mbid :: "world \<Rightarrow> pyval \<Rightarrow> pyval act" where
  "lookup_master_mbid w discog_entry =
     bind (pure (bindE (subscript discog_entry ''release'') (\<lambda>release.
                 dict_get release ''master_url''))) (\<lambda>master_url.
     bind (if truthy master_url then get_master_mbid w master_url else ret PNone) (\<lambda>master_id.
     bind (if \<not> truthy master_id then release_then_group w discog_entry master_id
           else ret master_id) (\<lambda>master_id.
     if \<not> truthy master_id then fuzzy_search w discog_entry master_id
     else ret master_id)))"

section \<open>Sample worlds and records\<close>

text \<open>
  A small \<open>urlparse\<close> for \<open>https\<close> URLs without query, and worlds built from the answers
  of \<open>browse_urls\<close> and \<open>search_release_groups\<close>; every \<open>get_release_by_id\<close> fails
  and every submission succeeds.
\<close>

definition sample_urlparse :: "pyval \<Rightarrow> parsed_url res" where
  "sample_urlparse v =
     (case v of
        PStr s \<Rightarrow>
          if startswith s ''https://''
          then Inr \<lparr>url_scheme = ''https'',
                    url_netloc = takeWhile (\<lambda>c. c \<noteq> CHR ''/'') (drop 8 s),
                    url_path = dropWhile (\<lambda>c. c \<noteq> CHR ''/'') (drop 8 s),
                    url_params = [], url_query = [], url_fragment = []\<rparr>
          else Inl ValueError
      | _ \<Rightarrow> Inl TypeError)"

definition sample_urlunparse :: "parsed_url \<Rightarrow> string" where
  "sample_urlunparse p = url_scheme p @ ''://'' @ url_netloc p @ url_path p"

definition mk_world ::
  "(string \<Rightarrow> string list \<Rightarrow> pyval res) \<Rightarrow> (pyval \<Rightarrow> pyval \<Rightarrow> pyval res) \<Rightarrow> world" where
  "mk_world browse search =
     \<lparr>urlparse = sample_urlparse, urlunparse = sample_urlunparse, browse_urls = browse,
      get_release_by_id = (\<lambda>release_id includes. Inl ResponseError),
      search_release_groups = search, submit_ratings = (\<lambda>ratings. Inr ())\<rparr>"

definition discogs_relation :: "string \<Rightarrow> string \<Rightarrow> string \<Rightarrow> pyval" where
  "discogs_relation list_key type_name mbid =
     PDict [(''url'', PDict [(list_key,
        PList [PDict [(''type'', PStr ''discogs''),
                      (type_name, PDict [(''id'', PStr mbid)])]])])]"

definition candidate :: "string \<Rightarrow> string \<Rightarrow> pyval" where
  "candidate mbid score =
     PDict [(''id'', PStr mbid), (''title'', PStr ''Album''),
            (''artist-credit-phrase'', PStr ''Artist''), (''ext:score'', PStr score)]"

definition candidate_info :: "string \<Rightarrow> pyval" where
  "candidate_info mbid =
     PDict [(''name'', PStr ''Album''), (''artist'', PStr ''Artist''), (''id'', PStr mbid)]"

text \<open>A collection record with a master URL, and a world that knows the master.\<close>

definition master_entry :: pyval where
  "master_entry =
     PDict [(''artists'', PList [PDict [(''name'', PStr ''Artist''), (''name_variation'', PStr []),
                                        (''url'', PStr ''https://api.discogs.com/artists/1'')]]),
            (''release'', PDict [(''name'', PStr ''Album''),
                                 (''url'', PStr ''https://api.discogs.com/releases/5''),
                                 (''master_url'', PStr ''https://api.discogs.com/masters/77'')])]"

definition master_world :: world where
  "master_world =
     mk_world
       (\<lambda>uri includes.
          if uri = ''https://www.discogs.com/master/77''
          then Inr (discogs_relation ''release_group-relation-list'' ''release-group'' ''rg-77'')
          else Inl ResponseError)
       (\<lambda>query arid. Inl OtherError)"

text \<open>
  A ratings record as the exporter writes it (no master URL), and worlds in which the
  release is not linked, the artist is, and the search answers as given.
\<close>

definition rated_entry :: pyval where
  "rated_entry =
     PDict [(''artists'', PList [PDict [(''name'', PStr ''Artist''),
                                        (''url'', PStr ''https://www.discogs.com/artist/1'')]]),
            (''release'', PDict [(''name'', PStr ''Album''),
                                 (''url'', PStr ''https://www.discogs.com/release/5'')]),
            (''rating'', PStr ''4'')]"

definition artist_world :: "(pyval \<Rightarrow> pyval \<Rightarrow> pyval res) \<Rightarrow> world" where
  "artist_world search =
     mk_world
       (\<lambda>uri includes.
          if uri = ''https://www.discogs.com/artist/1''
          then Inr (discogs_relation ''artist-relation-list'' ''artist'' ''artist-1'')
          else Inl ResponseError)
       search"

definition search_answer :: "pyval list \<Rightarrow> pyval res" where
  "search_answer candidates = Inr (PDict [(''release-group-list'', PList candidates)])"

text \<open>A world in which no Discogs URL is linked and no search finds anything.\<close>

definition unlinked_world :: world where
  "unlinked_world =
     mk_world (\<lambda>uri includes. Inl ResponseError) (\<lambda>query arid. search_answer [])"

text \<open>A ratings record without artists.\<close>

definition anonymous_entry :: pyval where
  "anonymous_entry =
     PDict [(''artists'', PList []),
            (''release'', PDict [(''name'', PStr ''Album''),
                                 (''url'', PStr ''https://www.discogs.com/release/5'')]),
            (''rating'', PStr ''4'')]"


text \<open>Worlds for the fuzzy search: one, two and three candidates for the one artist.\<close>

definition one_candidate_world :: world where
  "one_candidate_world = artist_world (\<lambda>query arid. search_answer [candidate ''rg-80'' ''80''])"

definition two_candidate_world :: world where
  "two_candidate_world =
     artist_world (\<lambda>query arid.
       search_answer [candidate ''rg-82'' ''82'', candidate ''rg-80'' ''80''])"

definition unordered_world :: world where
  "unordered_world =
     artist_world (\<lambda>query arid.
       search_answer [candidate ''rg-92'' ''92'', candidate ''rg-78'' ''78'',
                      candidate ''rg-96'' ''96''])"

definition no_result_world :: world where
  "no_result_world = artist_world (\<lambda>query arid. search_answer [])"

section \<open>The importer: \<open>import_ratings\<close>\<close>

text \<open>
  \<^verbatim>\<open>
  def import_ratings(import_dir):
      discogs_ratings = load_discogs_releases(import_dir, "release-ratings.json")
      release_group_ratings = {master_mbid: (int(entry["rating"]) * 20)
                               for entry in discogs_ratings
                               if (master_mbid := lookup_master_mbid(entry))}
      musicbrainzngs.submit_ratings(release_group_ratings=release_group_ratings)
  \<close>
  The dictionary built by the comprehension has Python objects as keys. Storing under a
  key that is already there (equal as Python compares keys: \<open>True == 1\<close>) replaces the
  value and keeps the entry's place; a list or a dictionary is not hashable and raises
  \<open>TypeError\<close>. The loaded file is the argument \<open>discogs_ratings\<close>.
\<close>

fun key_norm :: "pyval \<Rightarrow> pyval" where
  "key_norm (PBool b) = PInt (if b then 1 else 0)"
| "key_norm v = v"

definition key_eq :: "pyval \<Rightarrow> pyval \<Rightarrow> bool" where
  "key_eq a b = (key_norm a = key_norm b)"

fun hashable :: "pyval \<Rightarrow> bool" where
  "hashable (PList xs) = False"
| "hashable (PDict d) = False"
| "hashable v = True"

fun dict_set :: "pyval \<Rightarrow> int \<Rightarrow> (pyval \<times> int) list \<Rightarrow> (pyval \<times> int) list" where
  "dict_set k v [] = [(k, v)]"
| "dict_set k v ((k', v') # d) =
     (if key_eq k' k then (k', v) # d else (k', v') # dict_set k v d)"

definition dict_setitem :: "pyval \<Rightarrow> int \<Rightarrow> (pyval \<times> int) list \<Rightarrow> (pyval \<times> int) list res" where
  "dict_setitem k v d = (if hashable k then Inr (dict_set k v d) else Inl TypeError)"

fun dict_lookup :: "(pyval \<times> int) list \<Rightarrow> pyval \<Rightarrow> int option" where
  "dict_lookup [] k = None"
| "dict_lookup ((k', v') # d) k = (if key_eq k' k then Some v' else dict_lookup d k)"

definition entry_rating :: "pyval \<Rightarrow> int res" where
  "entry_rating entry = bindE (subscript entry ''rating'') py_int"

fun rate_each :: "world \<Rightarrow> pyval list \<Rightarrow> (pyval \<times> int) list \<Rightarrow> (pyval \<times> int) list act" where
  "rate_each w [] ratings = ret ratings"
| "rate_each w (entry # entries) ratings =
     bind (lookup_master_mbid w entry) (\<lambda>master_mbid.
       if truthy master_mbid
       then bind (pure (bindE (entry_rating entry) (\<lambda>rating.
                        dict_setitem master_mbid (rating * 20) ratings))) (\<lambda>ratings.
            rate_each w entries ratings)
       else rate_each w entries ratings)"

definition release_group_ratings :: "world \<Rightarrow> pyval \<Rightarrow> (pyval \<times> int) list act" where
  "release_group_ratings w discogs_ratings =
     bind (pure (py_iter discogs_ratings)) (\<lambda>entries. rate_each w entries [])"

definition import_ratings :: "world \<Rightarrow> pyval \<Rightarrow> unit act" where
  "import_ratings w discogs_ratings =
     bind (release_group_ratings w discogs_ratings) (\<lambda>ratings.
     call (SubmitRatings ratings) (submit_ratings w ratings))"

text \<open>
  Two pressings of one album, rated 4 and 2: in this world both releases are linked, to
  two MusicBrainz releases of the same release group.
\<close>

definition second_pressing :: pyval where
  "second_pressing =
     PDict [(''artists'', PList [PDict [(''name'', PStr ''Artist''),
                                        (''url'', PStr ''https://www.discogs.com/artist/1'')]]),
            (''release'', PDict [(''name'', PStr ''Album''),
                                 (''url'', PStr ''https://www.discogs.com/release/6'')]),
            (''rating'', PStr ''2'')]"

definition pressings_world :: world where
  "pressings_world =
     \<lparr>urlparse = sample_urlparse, urlunparse = sample_urlunparse,
      browse_urls = (\<lambda>uri includes.
        if uri = ''https://www.discogs.com/release/5''
        then Inr (discogs_relation ''release-relation-list'' ''release'' ''rel-5'')
        else if uri = ''https://www.discogs.com/release/6''
        then Inr (discogs_relation ''release-relation-list'' ''release'' ''rel-6'')
        else Inl ResponseError),
      get_release_by_id = (\<lambda>release_id includes.
        Inr (PDict [(''release'', PDict [(''id'', release_id),
                                         (''release-group'', PDict [(''id'', PStr ''rg-77'')])])])),
      search_release_groups = (\<lambda>query arid. Inl OtherError),
      submit_ratings = (\<lambda>ratings. Inr ())\<rparr>"

text \<open>A ratings record without artists whose release is not linked in that world.\<close>

definition unlinked_entry :: pyval where
  "unlinked_entry =
     PDict [(''artists'', PList []),
            (''release'', PDict [(''name'', PStr ''Single''),
                                 (''url'', PStr ''https://www.discogs.com/release/9'')]),
            (''rating'', PStr ''5'')]"

section \<open>The exporter: adding the master URL to the ratings\<close>

text \<open>
  A row of the ratings page, as \<open>_parse_release_ratings_html\<close>, \<open>_parse_release_info\<close>
  and \<open>_parse_artists_info\<close> turn it into a record: the anchors' texts and \<open>href\<close>s and
  the rating's \<open>data-value\<close> are what the HTML parser hands over.
  \<^verbatim>\<open>
  entry = {"artists": DiscogsHtmlClient._parse_artists_info(row),
           "release": DiscogsHtmlClient._parse_release_info(row),
           "rating": rating_tag["data-value"]}
  \<close>
\<close>

definition URL_BASE :: string where
  "URL_BASE = ''https://www.discogs.com''"

definition parse_release_info :: "string \<Rightarrow> string \<Rightarrow> pyval" where
  "parse_release_info anchor_text href =
     PDict [(''name'', PStr anchor_text), (''url'', PStr (URL_BASE @ url_short_form href))]"

definition parse_artists_info :: "(string \<times> string) list \<Rightarrow> pyval" where
  "parse_artists_info anchors =
     PList (map (\<lambda>(anchor_text, href).
                   PDict [(''name'', PStr anchor_text),
                          (''url'', PStr (URL_BASE @ url_short_form href))]) anchors)"

definition ratings_entry :: "(string \<times> string) list \<Rightarrow> string \<Rightarrow> string \<Rightarrow> string \<Rightarrow> pyval" where
  "ratings_entry artist_anchors release_text release_href data_value =
     PDict [(''artists'', parse_artists_info artist_anchors),
            (''release'', parse_release_info release_text release_href),
            (''rating'', PStr data_value)]"

text \<open>
  The names bound at module level of \<open>export-from-discogs.py\<close> when it runs as a script:
  its imports, constants, classes and functions, and \<open>args\<close>. A function that reads a
  name which is neither one of its locals nor one of these (nor a builtin) raises
  \<open>NameError\<close>.
\<close>

definition module_globals :: "string list" where
  "module_globals =
     [''argparse'', ''json'', ''os'', ''time'', ''urllib'', ''requests'', ''BeautifulSoup'',
      ''USER_AGENT'', ''URL_BASE'', ''API_BASE'', ''RATINGS_URL_FMT'', ''RELEASE_URL_FMT'',
      ''IDENTITY_URL_FMT'', ''WANTLIST_URL_FMT'', ''COLLECTION_URL_FMT'',
      ''_DiscogsApiBase'', ''DiscogsHtmlApi'', ''DiscogsRestApi'', ''DiscogsHtmlClient'',
      ''DiscogsRestClient'', ''_get_master_url'', ''export_release_ratings'', ''export'',
      ''parse_args'', ''args'']"

definition load_global :: "string \<Rightarrow> unit res" where
  "load_global name = (if name \<in> set module_globals then Inr () else Inl NameError)"

text \<open>
  \<^verbatim>\<open>
  def _get_master_url(release_info):
      release_url = release_info["release"]["url"]
      release_path = urllib.parse.urlparse(release_url).path
      release_id = release_path.split('/')[-1]
      master_url = rest_client.release_master_url(release_id)
      return {**relase_info, "master_url": master_url}
  \<close>
  The locals of the function are \<open>release_info\<close>, \<open>release_url\<close>, \<open>release_path\<close>,
  \<open>release_id\<close> and \<open>master_url\<close>; \<open>rest_client\<close> and \<open>relase_info\<close> are read as
  globals. \<open>urlparse\<close> and the REST client's \<open>release_master_url\<close> are parameters.
\<close>

fun dict_put :: "string \<Rightarrow> pyval \<Rightarrow> (string \<times> pyval) list \<Rightarrow> (string \<times> pyval) list" where
  "dict_put k v [] = [(k, v)]"
| "dict_put k v ((k', v') # d) = (if k' = k then (k', v) # d else (k', v') # dict_put k v d)"

definition with_master_url :: "pyval \<Rightarrow> pyval \<Rightarrow> pyval res" where
  "with_master_url info master_url =
     (case info of PDict d \<Rightarrow> Inr (PDict (dict_put ''master_url'' master_url d))
                 | _ \<Rightarrow> Inl TypeError)"

definition get_master_url ::
  "(pyval \<Rightarrow> parsed_url res) \<Rightarrow> (string \<Rightarrow> pyval res) \<Rightarrow> pyval \<Rightarrow> pyval act" where
  "get_master_url url_parse release_master_url release_info =
     bind (pure (bindE (subscript release_info ''release'') (\<lambda>release.
                 subscript release ''url''))) (\<lambda>release_url.
     bind (pure (url_parse release_url)) (\<lambda>parsed.
       let release_path = url_path parsed;
           release_id = last (py_split (CHR ''/'') release_path) in
       bind (pure (load_global ''rest_client'')) (\<lambda>_.
       bind (call (ReleaseMasterUrl release_id) (release_master_url release_id)) (\<lambda>master_url.
       bind (pure (load_global ''relase_info'')) (\<lambda>_.
       pure (with_master_url release_info master_url))))))"

text \<open>
  \<^verbatim>\<open>
  def export_release_ratings(html_client, rest_client, export_dir, include_master):
      ratings_filepath = html_client.export_release_ratings(export_dir)
      if include_master:
          with open(ratings_filepath) as ratings_file:
              ratings_json = json.load(ratings_file)
          updated_ratings_json = []
          for entry in ratings_json:
              updated_ratings_json.append(_get_master_url(entry))
              time.sleep(0.75)
          with open(ratings_filepath, 'w') as ratings_file:
              ratings_json = json.dump(updated_ratings_json, ratings_file)
  \<close>
  \<open>html_client.export_release_ratings\<close> has collected the records \<open>rating_info\<close> and
  written them to \<open>ratings_filepath\<close>; reading the file back gives the same records.
\<close>

fun augment_each ::
  "(pyval \<Rightarrow> parsed_url res) \<Rightarrow> (string \<Rightarrow> pyval res) \<Rightarrow> pyval list \<Rightarrow> pyval list
     \<Rightarrow> pyval list act" where
  "augment_each url_parse release_master_url [] updated = ret updated"
| "augment_each url_parse release_master_url (entry # entries) updated =
     bind (get_master_url url_parse release_master_url entry) (\<lambda>augmented.
     bind (call Sleep (Inr ())) (\<lambda>_.
     augment_each url_parse release_master_url entries (updated @ [augmented])))"

definition export_release_ratings ::
  "(pyval \<Rightarrow> parsed_url res) \<Rightarrow> (string \<Rightarrow> pyval res) \<Rightarrow> string \<Rightarrow> pyval list \<Rightarrow> bool
     \<Rightarrow> unit act" where
  "export_release_ratings url_parse release_master_url ratings_filepath rating_info include_master =
     bind (call (WriteFile ratings_filepath (PList rating_info)) (Inr ())) (\<lambda>_.
       if include_master
       then bind (augment_each url_parse release_master_url rating_info []) (\<lambda>updated.
            call (WriteFile ratings_filepath (PList updated)) (Inr ()))
       else ret ())"


section \<open>Facts about the string operations\<close>

lemma py_split_not_Nil: "py_split sep s \<noteq> []"
  by (induction s) (auto split: list.splits)

lemma py_split1_not_Nil: "py_split1 sep s \<noteq> []"
  by (induction s) (auto split: list.splits)

lemma hd_py_split1: "hd (py_split1 sep s) = takeWhile (\<lambda>c. c \<noteq> sep) s"
  by (induction s) (auto split: list.splits simp: py_split1_not_Nil)

lemma py_split_sep_free: "p \<in> set (py_split sep s) \<Longrightarrow> sep \<notin> set p"
proof (induction s arbitrary: p)
  case Nil
  then show ?case by simp
next
  case (Cons c cs)
  show ?case
  proof (cases "c = sep")
    case True
    with Cons show ?thesis by auto
  next
    case False
    obtain q qs where q: "py_split sep cs = q # qs"
      using py_split_not_Nil [of sep cs] by (cases "py_split sep cs") auto
    with Cons False show ?thesis by auto
  qed
qed

lemma py_split_no_sep: "sep \<notin> set s \<Longrightarrow> py_split sep s = [s]"
  by (induction s) auto

lemma py_split_append_sep:
  "sep \<notin> set p \<Longrightarrow> py_split sep (p @ sep # s) = p # py_split sep s"
  by (induction p) auto

lemma py_split_join:
  "ps \<noteq> [] \<Longrightarrow> \<forall>p \<in> set ps. sep \<notin> set p \<Longrightarrow> py_split sep (py_join [sep] ps) = ps"
proof (induction "[sep]" ps rule: py_join.induct)
  case 1
  then show ?case by simp
next
  case (2 p)
  then show ?case by (simp add: py_split_no_sep)
next
  case (3 p q ps)
  then show ?case by (simp add: py_split_append_sep)
qed

section \<open>Facts about the effect combinators\<close>

lemma bind_Inl [simp]: "bind (t, Inl e) f = (t, Inl e)"
  by (simp add: bind_def)

lemma bind_Inr [simp]: "bind (t, Inr x) f = (t @ fst (f x), snd (f x))"
  by (simp add: bind_def split: prod.splits)

lemma bind_ret [simp]: "bind (ret x) f = f x"
  by (simp add: ret_def)

lemma bind_pure_Inr [simp]: "bind (pure (Inr x)) f = f x"
  by (simp add: pure_def)

lemma bind_pure_Inl [simp]: "bind (pure (Inl e)) f = ([], Inl e)"
  by (simp add: pure_def)

lemma bind_call_Inr [simp]: "bind (call ev (Inr x)) f = (ev # fst (f x), snd (f x))"
  by (simp add: call_def)

lemma bind_call_Inl [simp]: "bind (call ev (Inl e)) f = ([ev], Inl e)"
  by (simp add: call_def)

lemma bindE_Inl [simp]: "bindE (Inl e) f = Inl e"
  by (simp add: bindE_def)

lemma bindE_Inr [simp]: "bindE (Inr x) f = f x"
  by (simp add: bindE_def)

lemma bind_eq_Inr:
  "bind m f = (t, Inr y) \<longleftrightarrow> (\<exists>t1 x t2. m = (t1, Inr x) \<and> f x = (t2, Inr y) \<and> t = t1 @ t2)"
  by (cases m; cases "snd m") (auto simp: bind_def split: prod.splits)

section \<open>C1: batches of the collection submission\<close>

lemma py_range_450: "py_range 0 450 200 = [0, 200, 400]"
  by (simp add: py_range.simps)

lemma submit_chunks_ok:
  "list_all (\<lambda>i. i < length xs) idxs \<Longrightarrow>
   submit_chunks put_ok c xs idxs =
     (concat (map (\<lambda>i. [Printed [PStr (last (take (chunk_size + 1) (drop i xs)))],
                         MbPut (''collection/'' @ c @ ''/release-groups/''
                                @ py_join '';'' (take (chunk_size + 1) (drop i xs)))]) idxs),
      Inr ())"
proof (induction idxs)
  case Nil
  then show ?case by (simp add: ret_def)
next
  case (Cons i idxs)
  then have "take (chunk_size + 1) (drop i xs) \<noteq> []"
    by (simp add: chunk_size_def)
  with Cons show ?case
    by (simp add: Let_def put_ok_def)
qed

text \<open>
  C1. The stride of the loop is 200 but each slice is \<open>[index : index + 200 + 1]\<close>, 201
  identifiers long. On 450 identifiers the run sends three requests, which carry the
  identifiers 0 to 200, 200 to 400 and 400 to 449: batches of 201, 201 and 50, with the
  identifiers at positions 200 and 400 each sent in two batches.
\<close>

theorem add_release_groups_450_batches:
  "add_release_groups_to_collection put_ok ''c'' sample_release_groups =
     (fst (add_release_groups_to_collection put_ok ''c'' sample_release_groups), Inr ())
   \<and> put_requests (fst (add_release_groups_to_collection put_ok ''c'' sample_release_groups)) =
       [''collection/c/release-groups/'' @ py_join '';'' (take 201 sample_release_groups),
        ''collection/c/release-groups/'' @ py_join '';'' (take 201 (drop 200 sample_release_groups)),
        ''collection/c/release-groups/'' @ py_join '';'' (take 201 (drop 400 sample_release_groups))]
   \<and> map length [take 201 sample_release_groups,
                  take 201 (drop 200 sample_release_groups),
                  take 201 (drop 400 sample_release_groups)] = [201, 201, 50]
   \<and> sample_release_groups ! 200 = last (take 201 sample_release_groups)
   \<and> sample_release_groups ! 200 = hd (take 201 (drop 200 sample_release_groups))
   \<and> sample_release_groups ! 400 = last (take 201 (drop 200 sample_release_groups))
   \<and> sample_release_groups ! 400 = hd (take 201 (drop 400 sample_release_groups))
   \<and> distinct sample_release_groups"
proof -
  have len: "length sample_release_groups = 450"
    by (simp add: sample_release_groups_def)
  have run: "add_release_groups_to_collection put_ok ''c'' sample_release_groups =
      ([Printed [PStr (last (take 201 sample_release_groups))],
        MbPut (''collection/c/release-groups/'' @ py_join '';'' (take 201 sample_release_groups)),
        Printed [PStr (last (take 201 (drop 200 sample_release_groups)))],
        MbPut (''collection/c/release-groups/''
               @ py_join '';'' (take 201 (drop 200 sample_release_groups))),
        Printed [PStr (last (take 201 (drop 400 sample_release_groups)))],
        MbPut (''collection/c/release-groups/''
               @ py_join '';'' (take 201 (drop 400 sample_release_groups)))],
       Inr ())"
    unfolding add_release_groups_to_collection_def len chunk_size_def py_range_450
    by (subst submit_chunks_ok) (simp_all add: len chunk_size_def)
  have inj: "inj sample_mbid"
  proof (rule injI)
    fix x y
    assume "sample_mbid x = sample_mbid y"
    then have "length (sample_mbid x) = length (sample_mbid y)"
      by simp
    then show "x = y"
      by (simp add: sample_mbid_def)
  qed
  have dist: "distinct sample_release_groups"
    unfolding sample_release_groups_def by (simp add: distinct_map inj_on_def injD [OF inj])
  have ne1: "take 201 sample_release_groups \<noteq> []"
    using len by auto
  have ne2: "take 201 (drop 200 sample_release_groups) \<noteq> []"
    using len by auto
  have l1: "last (take 201 sample_release_groups) = sample_release_groups ! 200"
    using ne1 by (simp add: last_conv_nth len)
  have l2: "last (take 201 (drop 200 sample_release_groups)) = sample_release_groups ! 400"
    using ne2 by (simp add: last_conv_nth len)
  have h1: "hd (take 201 (drop 200 sample_release_groups)) = sample_release_groups ! 200"
    using len by (simp add: hd_drop_conv_nth)
  have h2: "hd (take 201 (drop 400 sample_release_groups)) = sample_release_groups ! 400"
    using len by (simp add: hd_drop_conv_nth)
  show ?thesis
    unfolding run using l1 l2 h1 h2 dist len by (simp add: hd_drop_conv_nth)
qed

section \<open>C6: \<open>url_short_form\<close>\<close>

lemma py_split_snoc:
  "sep \<notin> set seg \<Longrightarrow> py_split sep (d @ sep # seg) = py_split sep d @ [seg]"
proof (induction d)
  case Nil
  then show ?case by (simp add: py_split_no_sep)
next
  case (Cons c d)
  obtain q qs where "py_split sep d = q # qs"
    using py_split_not_Nil [of sep d] by (cases "py_split sep d") auto
  with Cons show ?case by simp
qed

lemma py_join_Cons_hd: "py_join sep ((c # q) # qs) = c # py_join sep (q # qs)"
  by (cases qs) simp_all

lemma py_join_split: "py_join [sep] (py_split sep d) = d"
proof (induction d)
  case Nil
  then show ?case by simp
next
  case (Cons c d)
  obtain q qs where "py_split sep d = q # qs"
    using py_split_not_Nil [of sep d] by (cases "py_split sep d") auto
  with Cons show ?case by (simp add: py_join_Cons_hd)
qed

lemma py_join_snoc: "ps \<noteq> [] \<Longrightarrow> py_join sep (ps @ [t]) = py_join sep ps @ sep @ t"
  by (induction sep ps rule: py_join.induct) simp_all

lemma url_short_form_last_segment:
  assumes "CHR ''/'' \<notin> set seg"
  shows "url_short_form (dir @ CHR ''/'' # seg) =
           dir @ CHR ''/'' # takeWhile (\<lambda>c. c \<noteq> CHR ''-'') seg"
proof -
  have "py_split (CHR ''/'') (dir @ CHR ''/'' # seg) = py_split (CHR ''/'') dir @ [seg]"
    using assms by (rule py_split_snoc)
  then have "url_short_form (dir @ CHR ''/'' # seg) =
      py_join ''/'' (py_split (CHR ''/'') dir @ [takeWhile (\<lambda>c. c \<noteq> CHR ''-'') seg])"
    by (simp add: url_short_form_def Let_def hd_py_split1)
  also have "\<dots> = py_join ''/'' (py_split (CHR ''/'') dir) @ ''/''
                    @ takeWhile (\<lambda>c. c \<noteq> CHR ''-'') seg"
    by (rule py_join_snoc) (rule py_split_not_Nil)
  also have "\<dots> = dir @ CHR ''/'' # takeWhile (\<lambda>c. c \<noteq> CHR ''-'') seg"
    by (simp add: py_join_split)
  finally show ?thesis .
qed

lemma url_short_form_one_segment:
  assumes "CHR ''/'' \<notin> set p"
  shows "url_short_form p = takeWhile (\<lambda>c. c \<noteq> CHR ''-'') p"
  using assms by (simp add: url_short_form_def Let_def hd_py_split1 py_split_no_sep)

lemma url_short_form_idem: "url_short_form (url_short_form p) = url_short_form p"
proof -
  let ?ps = "py_split (CHR ''/'') p"
  let ?t = "takeWhile (\<lambda>c. c \<noteq> CHR ''-'') (last ?ps)"
  let ?qs = "butlast ?ps @ [?t]"
  have unfolded: "url_short_form p = py_join ''/'' ?qs"
    by (simp add: url_short_form_def Let_def hd_py_split1)
  have last_in: "last ?ps \<in> set ?ps"
    by (simp add: py_split_not_Nil)
  have "CHR ''/'' \<notin> set (last ?ps)"
    using py_split_sep_free [OF last_in] .
  then have t_free: "CHR ''/'' \<notin> set ?t"
    by (meson set_takeWhileD)
  have "\<forall>q \<in> set ?qs. CHR ''/'' \<notin> set q"
    using t_free py_split_sep_free [of _ "CHR ''/''" p] by (auto dest: in_set_butlastD)
  then have split_again: "py_split (CHR ''/'') (py_join ''/'' ?qs) = ?qs"
    by (intro py_split_join) simp_all
  have "takeWhile (\<lambda>c. c \<noteq> CHR ''-'') ?t = ?t"
    by simp
  then have "url_short_form (py_join ''/'' ?qs) = py_join ''/'' ?qs"
    by (simp add: url_short_form_def Let_def hd_py_split1 split_again)
  then show ?thesis
    by (simp only: unfolded)
qed

text \<open>
  C6. \<open>url_short_form\<close> cuts the last path segment at its first hyphen and leaves the
  rest of the path as it is: a path \<open>dir/seg\<close>, where \<open>seg\<close> (the text after the last
  slash) has no slash, becomes \<open>dir/\<close> followed by \<open>seg\<close> up to its first hyphen, and
  a path without a slash is cut at its first hyphen. On \<open>/release/12345-Album-Name\<close>
  it gives \<open>/release/12345\<close>; and applying it to its own output changes nothing.
\<close>

theorem url_short_form_truncates_idempotent:
  "(CHR ''/'' \<notin> set seg \<longrightarrow>
      url_short_form (dir @ CHR ''/'' # seg) =
        dir @ CHR ''/'' # takeWhile (\<lambda>c. c \<noteq> CHR ''-'') seg)
   \<and> (CHR ''/'' \<notin> set p \<longrightarrow> url_short_form p = takeWhile (\<lambda>c. c \<noteq> CHR ''-'') p)
   \<and> url_short_form ''/release/12345-Album-Name'' = ''/release/12345''
   \<and> url_short_form (url_short_form q) = url_short_form q"
proof (intro conjI impI)
  show "url_short_form ''/release/12345-Album-Name'' = ''/release/12345''"
    using url_short_form_last_segment [of "''12345-Album-Name''" "''/release''"] by simp
qed (simp_all add: url_short_form_last_segment url_short_form_one_segment url_short_form_idem)

theorem url_short_form_truncates_idempotent_witness:
  "url_short_form ''/a-b/c-d-e'' = ''/a-b/c''
   \<and> url_short_form ''12345-Album-Name'' = ''12345''
   \<and> url_short_form ''/release/12345'' = ''/release/12345''"
  using url_short_form_truncates_idempotent [of "''c-d-e''" "''/a-b''" "''12345-Album-Name''"]
    url_short_form_truncates_idempotent [of "''12345''" "''/release''"]
  by simp

section \<open>C9: paginated retrieval\<close>







section \<open>Facts about the lookups\<close>

lemma lookup_mbid_events:
  "lookup_mbid_by_discog_url w url type_name = (t, Inr v) \<Longrightarrow>
   \<exists>uri. discog_api_url_to_www w url = Inr uri \<and> t = [BrowseUrls uri [type_name @ ''-rels'']]"
  by (cases "discog_api_url_to_www w url")
     (auto simp: lookup_mbid_by_discog_url_def Let_def pure_def split: sum.splits if_splits)

lemma lookup_miss:
  "discog_api_url_to_www w url = Inr uri \<Longrightarrow>
   browse_urls w uri [type_name @ ''-rels''] = Inl ResponseError \<Longrightarrow>
   lookup_mbid_by_discog_url w url type_name = ([BrowseUrls uri [type_name @ ''-rels'']], Inr PNone)"
  by (simp add: lookup_mbid_by_discog_url_def Let_def)

lemma connection_id_discogs_relation:
  "type_name \<noteq> ''type'' \<Longrightarrow> connection_id (discogs_relation (str_replace ''-'' ''_'' type_name @ ''-relation-list'')
     type_name mbid) type_name = Inr (PStr mbid)"
  by (simp add: connection_id_def discogs_relation_def)

lemma lookup_hit:
  "type_name \<noteq> ''type'' \<Longrightarrow> discog_api_url_to_www w url = Inr uri \<Longrightarrow>
   browse_urls w uri [type_name @ ''-rels''] =
     Inr (discogs_relation (str_replace ''-'' ''_'' type_name @ ''-relation-list'') type_name mbid) \<Longrightarrow>
   lookup_mbid_by_discog_url w url type_name =
     ([BrowseUrls uri [type_name @ ''-rels'']], Inr (PStr mbid))"
  by (simp add: lookup_mbid_by_discog_url_def Let_def connection_id_discogs_relation)

section \<open>Facts about the sample worlds\<close>

lemma mk_world_sel [simp]:
  "urlparse (mk_world b s) = sample_urlparse"
  "urlunparse (mk_world b s) = sample_urlunparse"
  "browse_urls (mk_world b s) = b"
  "get_release_by_id (mk_world b s) = (\<lambda>release_id includes. Inl ResponseError)"
  "search_release_groups (mk_world b s) = s"
  by (simp_all add: mk_world_def)

lemma www_release_5:
  "discog_api_url_to_www (mk_world b s) (PStr ''https://www.discogs.com/release/5'') =
     Inr ''https://www.discogs.com/release/5''"
  by (simp add: discog_api_url_to_www_def sample_urlparse_def sample_urlunparse_def
      startswith_def Let_def)

lemma www_artist_1:
  "discog_api_url_to_www (mk_world b s) (PStr ''https://www.discogs.com/artist/1'') =
     Inr ''https://www.discogs.com/artist/1''"
  by (simp add: discog_api_url_to_www_def sample_urlparse_def sample_urlunparse_def
      startswith_def Let_def)

lemma www_master_77:
  "discog_api_url_to_www (mk_world b s) (PStr ''https://api.discogs.com/masters/77'') =
     Inr ''https://www.discogs.com/master/77''"
  by (simp add: discog_api_url_to_www_def sample_urlparse_def sample_urlunparse_def
      startswith_def Let_def)

lemma type_keys:
  "str_replace ''-'' ''_'' ''release-group'' @ ''-relation-list'' = ''release_group-relation-list''"
  "str_replace ''-'' ''_'' ''artist'' @ ''-relation-list'' = ''artist-relation-list''"
  by simp_all

lemma int_of_str_samples:
  "int_of_str ''4'' = Some 4" "int_of_str ''2'' = Some 2"
  "int_of_str ''78'' = Some 78" "int_of_str ''80'' = Some 80"
  "int_of_str ''82'' = Some 82" "int_of_str ''92'' = Some 92"
  "int_of_str ''96'' = Some 96"
  by (simp_all add: int_of_str_def strip_def is_space_def parse_nat_def digit_val_def)

lemma ext_score_candidate: "ext_score (candidate mbid score) = py_int (PStr score)"
  by (simp add: ext_score_def candidate_def)

lemma release_group_info_candidate:
  "release_group_info (candidate mbid score) = Inr (candidate_info mbid)"
  by (simp add: release_group_info_def candidate_def candidate_info_def)

lemma ext_score_info: "release_group_info rg = Inr info \<Longrightarrow> ext_score info = Inl KeyError"
  by (auto simp: release_group_info_def ext_score_def bindE_def split: sum.splits)

lemma ext_score_candidate_info: "ext_score (candidate_info mbid) = Inl KeyError"
  by (simp add: ext_score_def candidate_info_def)

lemma rated_entry_fields:
  "subscript rated_entry ''release'' =
     Inr (PDict [(''name'', PStr ''Album''), (''url'', PStr ''https://www.discogs.com/release/5'')])"
  "subscript rated_entry ''artists'' =
     Inr (PList [PDict [(''name'', PStr ''Artist''),
                        (''url'', PStr ''https://www.discogs.com/artist/1'')]])"
  "subscript rated_entry ''artist'' = Inl KeyError"
  by (simp_all add: rated_entry_def)

lemma rated_release_miss:
  "lookup_release_mbid (artist_world s) rated_entry =
     ([BrowseUrls ''https://www.discogs.com/release/5'' [''release-rels'']], Inr PNone)"
  using lookup_miss [OF www_release_5, of _ s "''release''"]
  by (simp add: lookup_release_mbid_def rated_entry_fields artist_world_def)

lemma rated_artist_hit:
  "lookup_artist_mbids (artist_world s) rated_entry =
     ([BrowseUrls ''https://www.discogs.com/artist/1'' [''artist-rels'']], Inr [PStr ''artist-1''])"
  using lookup_hit [OF _ www_artist_1, of "''artist''" _ s "''artist-1''"]
  by (simp add: lookup_artist_mbids_def rated_entry_fields artist_world_def ret_def)

lemma sample_search:
  "search_release_groups one_candidate_world q a = search_answer [candidate ''rg-80'' ''80'']"
  "search_release_groups two_candidate_world q a =
     search_answer [candidate ''rg-82'' ''82'', candidate ''rg-80'' ''80'']"
  "search_release_groups unordered_world q a =
     search_answer [candidate ''rg-92'' ''92'', candidate ''rg-78'' ''78'', candidate ''rg-96'' ''96'']"
  "search_release_groups no_result_world q a = search_answer []"
  "search_release_groups unlinked_world q a = search_answer []"
  "search_release_groups (artist_world s) = s"
  by (simp_all add: one_candidate_world_def two_candidate_world_def unordered_world_def
      no_result_world_def unlinked_world_def artist_world_def)

lemmas search_simps = search_release_group_by_artists_def sample_search search_answer_def
  rated_entry_fields ext_score_candidate release_group_info_candidate int_of_str_samples
  sorted_by_score_desc_def ext_score_candidate_info pure_def

lemma search_one_candidate:
  "search_release_group_by_artists one_candidate_world rated_entry [PStr ''artist-1''] =
   ([SearchReleaseGroups (PStr ''Album'') (PStr ''artist-1'')], Inl KeyError)"
  by (simp add: search_simps)

lemma search_two_candidates:
  "search_release_group_by_artists two_candidate_world rated_entry [PStr ''artist-1''] =
   ([SearchReleaseGroups (PStr ''Album'') (PStr ''artist-1'')], Inl KeyError)"
  by (simp add: search_simps)


lemma search_no_result:
  "search_release_group_by_artists no_result_world rated_entry [PStr ''artist-1''] =
   ([SearchReleaseGroups (PStr ''Album'') (PStr ''artist-1'')], Inl IndexError)"
  by (simp add: search_simps)

lemma search_unresolved_artist:
  "search_release_group_by_artists unlinked_world rated_entry [PNone] =
   ([SearchReleaseGroups (PStr ''Album'') PNone], Inl IndexError)"
  by (simp add: search_simps)

lemma search_no_artist:
  "search_release_group_by_artists w discog_entry [] = ([], Inr [])"
  by (simp add: search_release_group_by_artists_def sorted_by_score_desc_def pure_def)

lemma unlinked_release_miss:
  "lookup_release_mbid unlinked_world rated_entry =
     ([BrowseUrls ''https://www.discogs.com/release/5'' [''release-rels'']], Inr PNone)"
  "lookup_release_mbid unlinked_world anonymous_entry =
     ([BrowseUrls ''https://www.discogs.com/release/5'' [''release-rels'']], Inr PNone)"
  using lookup_miss [OF www_release_5, of "\<lambda>uri includes. Inl ResponseError"
      "\<lambda>query arid. search_answer []" "''release''"]
  by (simp_all add: lookup_release_mbid_def rated_entry_fields anonymous_entry_def
      unlinked_world_def)

lemma unlinked_artist_miss:
  "lookup_artist_mbids unlinked_world rated_entry =
     ([BrowseUrls ''https://www.discogs.com/artist/1'' [''artist-rels'']], Inr [PNone])"
  using lookup_miss [OF www_artist_1, of "\<lambda>uri includes. Inl ResponseError"
      "\<lambda>query arid. search_answer []" "''artist''"]
  by (simp add: lookup_artist_mbids_def rated_entry_fields unlinked_world_def ret_def)

lemma anonymous_entry_fields:
  "subscript anonymous_entry ''release'' =
     Inr (PDict [(''name'', PStr ''Album''), (''url'', PStr ''https://www.discogs.com/release/5'')])"
  "subscript anonymous_entry ''artist'' = Inl KeyError"
  by (simp_all add: anonymous_entry_def)

lemma anonymous_no_artists:
  "lookup_artist_mbids w anonymous_entry = ([], Inr [])"
  by (simp add: lookup_artist_mbids_def anonymous_entry_def ret_def)

lemma rated_lookups:
  "lookup_release_mbid one_candidate_world rated_entry =
     ([BrowseUrls ''https://www.discogs.com/release/5'' [''release-rels'']], Inr PNone)"
  "lookup_release_mbid two_candidate_world rated_entry =
     ([BrowseUrls ''https://www.discogs.com/release/5'' [''release-rels'']], Inr PNone)"
  "lookup_release_mbid no_result_world rated_entry =
     ([BrowseUrls ''https://www.discogs.com/release/5'' [''release-rels'']], Inr PNone)"
  "lookup_artist_mbids one_candidate_world rated_entry =
     ([BrowseUrls ''https://www.discogs.com/artist/1'' [''artist-rels'']], Inr [PStr ''artist-1''])"
  "lookup_artist_mbids two_candidate_world rated_entry =
     ([BrowseUrls ''https://www.discogs.com/artist/1'' [''artist-rels'']], Inr [PStr ''artist-1''])"
  "lookup_artist_mbids no_result_world rated_entry =
     ([BrowseUrls ''https://www.discogs.com/artist/1'' [''artist-rels'']], Inr [PStr ''artist-1''])"
  by (simp_all add: one_candidate_world_def two_candidate_world_def no_result_world_def
      rated_release_miss rated_artist_hit)

section \<open>Facts about the fuzzy search\<close>

text \<open>
  Whatever the service answers, the search returns either no candidate or the one
  candidate of a short-circuit: a loop that ends with a qualifying candidate in
  \<open>rg_results\<close> raises in \<open>sorted\<close>.
\<close>

lemma bindE_eq_Inr2: "bindE r f = Inr y \<Longrightarrow> \<exists>x. r = Inr x \<and> f x = Inr y"
  by (cases r) simp_all

lemma qualifying_infos:
  "qualifying rgs = Inr infos \<Longrightarrow> list_all (\<lambda>i. ext_score i = Inl KeyError) infos"
proof (induction rgs arbitrary: infos)
  case Nil
  then show ?case by simp
next
  case (Cons rg rgs)
  from Cons.prems obtain score where score: "ext_score rg = Inr score"
    by (cases "ext_score rg") simp_all
  show ?case
  proof (cases "75 \<le> score")
    case False
    with Cons score show ?thesis by simp
  next
    case True
    with Cons.prems score obtain info rest where
      "release_group_info rg = Inr info" "qualifying rgs = Inr rest" "infos = info # rest"
      by (cases "release_group_info rg"; cases "qualifying rgs") auto
    with Cons.IH show ?thesis
      by (simp add: ext_score_info)
  qed
qed

lemma sorted_infos:
  "list_all (\<lambda>i. ext_score i = Inl KeyError) infos \<Longrightarrow>
   sorted_by_score_desc infos = (if infos = [] then Inr [] else Inl KeyError)"
  by (cases infos) (simp_all add: sorted_by_score_desc_def)

lemma search_each_artist_shape:
  "search_each_artist w discog_entry artist_mbids rg_results = (t, Inr results) \<Longrightarrow>
   list_all (\<lambda>i. ext_score i = Inl KeyError) rg_results \<Longrightarrow>
   results = [] \<or>
   (\<exists>best score info. ext_score best = Inr score \<and> 95 < score
       \<and> release_group_info best = Inr info \<and> results = [info])"
proof (induction artist_mbids arbitrary: rg_results t)
  case Nil
  then show ?case
    by (auto simp: pure_def sorted_infos split: if_splits)
next
  case (Cons artist_mbid artist_mbids)
  from Cons.prems(1) obtain name sr rgl score t2 where
    sr: "search_release_groups w name artist_mbid = Inr sr"
      "subscript sr ''release-group-list'' = Inr rgl"
      "bindE (index0 rgl) ext_score = Inr score"
    and rest: "(if 95 < score
          then pure (bindE (index0 rgl) (\<lambda>top.
                     bindE (release_group_info top) (\<lambda>info. Inr [info])))
          else bind (pure (bindE (py_iter rgl) qualifying)) (\<lambda>infos.
               search_each_artist w discog_entry artist_mbids (rg_results @ infos)))
        = (t2, Inr results)"
    by (auto simp: bind_eq_Inr pure_def call_def)
  show ?case
  proof (cases "95 < score")
    case True
    from sr(3) obtain best where best: "index0 rgl = Inr best" "ext_score best = Inr score"
      by (auto dest: bindE_eq_Inr2)
    with True rest obtain info where "release_group_info best = Inr info" "results = [info]"
      by (cases "release_group_info best") (auto simp: pure_def)
    with best True show ?thesis by blast
  next
    case False
    with rest obtain infos t3 where infos: "bindE (py_iter rgl) qualifying = Inr infos"
      "search_each_artist w discog_entry artist_mbids (rg_results @ infos) = (t3, Inr results)"
      by (auto simp: bind_eq_Inr pure_def)
    from infos(1) obtain rgs where "qualifying rgs = Inr infos"
      by (auto dest: bindE_eq_Inr2)
    then have "list_all (\<lambda>i. ext_score i = Inl KeyError) (rg_results @ infos)"
      using Cons.prems(2) qualifying_infos by simp
    from Cons.IH [OF infos(2) this] show ?thesis .
  qed
qed

lemma search_results_shape:
  "search_release_group_by_artists w discog_entry artist_mbids = (t, Inr results) \<Longrightarrow>
   results = [] \<or>
   (\<exists>best score info. ext_score best = Inr score \<and> 95 < score
       \<and> release_group_info best = Inr info \<and> results = [info])"
proof -
  assume "search_release_group_by_artists w discog_entry artist_mbids = (t, Inr results)"
  then have run: "search_each_artist w discog_entry artist_mbids [] = (t, Inr results)"
    by (simp add: search_release_group_by_artists_def)
  have "list_all (\<lambda>i. ext_score i = Inl KeyError) []"
    by simp
  from search_each_artist_shape [OF run this] show ?thesis .
qed

section \<open>C4, C5, C8: the fuzzy search on the sample worlds\<close>

text \<open>
  C4. The function returns the candidates as dictionaries with the keys \<open>name\<close>,
  \<open>artist\<close> and \<open>id\<close>, and the final \<open>sorted\<close> reads \<open>rg["ext:score"]\<close> from them:
  a \<open>KeyError\<close> as soon as one candidate qualified. With one candidate of score 80 the
  cascade raises instead of accepting it; with two candidates (82 and 80) it raises
  before anything is printed. (Lemma \<open>search_results_shape\<close>: in every world, a list the
  search returns is empty or the single candidate of a short-circuit.)
\<close>

theorem fuzzy_candidates_raise:
  "lookup_master_mbid one_candidate_world rated_entry =
     ([BrowseUrls ''https://www.discogs.com/release/5'' [''release-rels''],
       BrowseUrls ''https://www.discogs.com/artist/1'' [''artist-rels''],
       SearchReleaseGroups (PStr ''Album'') (PStr ''artist-1'')], Inl KeyError)
   \<and> lookup_master_mbid two_candidate_world rated_entry =
     ([BrowseUrls ''https://www.discogs.com/release/5'' [''release-rels''],
       BrowseUrls ''https://www.discogs.com/artist/1'' [''artist-rels''],
       SearchReleaseGroups (PStr ''Album'') (PStr ''artist-1'')], Inl KeyError)"
  by (simp add: lookup_master_mbid_def rated_entry_fields release_then_group_def
      fuzzy_search_def rated_lookups search_one_candidate search_two_candidates ret_def)

text \<open>
  C5. \<open>lookup_artist_mbids\<close> keeps the \<open>None\<close> of an artist that did not resolve, and
  the search loop runs over every element: for a record whose only artist is not linked,
  \<open>search_release_groups\<close> is called with \<open>arid=None\<close>.
\<close>

theorem unresolved_artist_is_searched:
  "lookup_artist_mbids unlinked_world rated_entry =
     ([BrowseUrls ''https://www.discogs.com/artist/1'' [''artist-rels'']], Inr [PNone])
   \<and> lookup_master_mbid unlinked_world rated_entry =
     ([BrowseUrls ''https://www.discogs.com/release/5'' [''release-rels''],
       BrowseUrls ''https://www.discogs.com/artist/1'' [''artist-rels''],
       SearchReleaseGroups (PStr ''Album'') PNone], Inl IndexError)"
  by (simp add: lookup_master_mbid_def rated_entry_fields release_then_group_def
      fuzzy_search_def unlinked_release_miss unlinked_artist_miss search_unresolved_artist ret_def)

text \<open>
  C8. A \<open>ResponseError\<close> of \<open>browse_urls\<close> is caught and the cascade goes on (lemma
  \<open>lookup_miss\<close>, and the release lookup in both runs below). A search that finds
  nothing is not: \<open>release_group_list[0]\<close> raises \<open>IndexError\<close> on the empty answer.
  And when every strategy misses (here a record without artists), the report of the
  candidates reads \<open>discog_entry['artist']\<close>, a key the records do not have: \<open>KeyError\<close>.
\<close>

theorem lookup_miss_raises:
  "lookup_master_mbid no_result_world rated_entry =
     ([BrowseUrls ''https://www.discogs.com/release/5'' [''release-rels''],
       BrowseUrls ''https://www.discogs.com/artist/1'' [''artist-rels''],
       SearchReleaseGroups (PStr ''Album'') (PStr ''artist-1'')], Inl IndexError)
   \<and> lookup_master_mbid unlinked_world anonymous_entry =
     ([BrowseUrls ''https://www.discogs.com/release/5'' [''release-rels'']], Inl KeyError)"
  by (simp add: lookup_master_mbid_def rated_entry_fields release_then_group_def
      fuzzy_search_def rated_lookups unlinked_release_miss anonymous_no_artists
      search_no_result search_no_artist ret_def candidates_header_def anonymous_entry_fields)


section \<open>C2: the direct master link short-circuits the cascade\<close>

text \<open>
  C2. When the record's \<open>master_url\<close> is present (a true value, as \<open>if master_url:\<close>
  tests it) and the external-link lookup for it returns a target identifier (a true
  value, as \<open>if not master_id:\<close> tests it), the cascade returns that identifier, and the
  only request of the whole run is the one \<open>browse_urls\<close> call of that lookup: neither
  the release lookup and \<open>get_release_by_id\<close> of strategy 2 nor the artist lookups and
  searches of strategy 3 happen.
\<close>

theorem master_link_short_circuit:
  assumes "subscript discog_entry ''release'' = Inr release"
    and "dict_get release ''master_url'' = Inr master_url"
    and "truthy master_url"
    and "lookup_mbid_by_discog_url w master_url ''release-group'' = (t, Inr mbid)"
    and "truthy mbid"
  shows "lookup_master_mbid w discog_entry = (t, Inr mbid)
     \<and> (\<exists>uri. discog_api_url_to_www w master_url = Inr uri
            \<and> t = [BrowseUrls uri [''release-group-rels'']])"
proof
  show "lookup_master_mbid w discog_entry = (t, Inr mbid)"
    using assms by (simp add: lookup_master_mbid_def get_master_mbid_def ret_def)
  show "\<exists>uri. discog_api_url_to_www w master_url = Inr uri
            \<and> t = [BrowseUrls uri [''release-group-rels'']]"
    using lookup_mbid_events [OF assms(4)] by simp
qed

lemma master_lookup:
  "lookup_mbid_by_discog_url master_world (PStr ''https://api.discogs.com/masters/77'')
     ''release-group'' =
   ([BrowseUrls ''https://www.discogs.com/master/77'' [''release-group-rels'']],
    Inr (PStr ''rg-77''))"
  unfolding master_world_def
  by (rule lookup_hit [OF _ www_master_77, of "''release-group''", simplified]) simp

theorem master_link_short_circuit_witness:
  "lookup_master_mbid master_world master_entry =
     ([BrowseUrls ''https://www.discogs.com/master/77'' [''release-group-rels'']],
      Inr (PStr ''rg-77''))"
  using master_link_short_circuit [of master_entry _ "PStr ''https://api.discogs.com/masters/77''"
      master_world _ "PStr ''rg-77''", OF _ _ _ master_lookup]
  by (simp add: master_entry_def)

section \<open>C3: the fuzzy search short-circuits on a top candidate\<close>






section \<open>C10: the master-URL step of the ratings export\<close>

lemma get_master_url_raises:
  "\<exists>e. get_master_url url_parse release_master_url release_info = ([], Inl e)"
proof (cases "bindE (subscript release_info ''release'') (\<lambda>release. subscript release ''url'')")
  case (Inl e)
  then show ?thesis by (simp add: get_master_url_def)
next
  case (Inr release_url)
  then show ?thesis
    by (cases "url_parse release_url")
       (simp_all add: get_master_url_def Let_def load_global_def module_globals_def)
qed

lemma augmentation_never_writes:
  "\<exists>e. export_release_ratings url_parse release_master_url path (entry # rest) True =
         ([WriteFile path (PList (entry # rest))], Inl e)"
proof -
  obtain e where "get_master_url url_parse release_master_url entry = ([], Inl e)"
    using get_master_url_raises by blast
  then show ?thesis
    by (simp add: export_release_ratings_def)
qed

text \<open>
  C10. With the include-master option and a non-empty list of ratings records, the step
  that adds the master URL raises on the first record: \<open>_get_master_url\<close> reads the
  name \<open>rest_client\<close>, which is neither a local of the function nor a name of the
  module, so the call is a \<open>NameError\<close> (for a record as the exporter writes it, whose
  release URL parses). No request for a master URL is made, and the only file write of
  the run is the first one, of the records without master URL: the augmented file is
  never written. (Lemma \<open>augmentation_never_writes\<close>: for any first record the step ends
  in an exception before the second write.)
\<close>

theorem augmentation_raises_name_error:
  assumes "url_parse (PStr (URL_BASE @ url_short_form release_href)) = Inr parsed"
  shows "export_release_ratings url_parse release_master_url path
           (ratings_entry artist_anchors release_text release_href data_value # rest) True =
         ([WriteFile path
             (PList (ratings_entry artist_anchors release_text release_href data_value # rest))],
          Inl NameError)"
proof -
  have "get_master_url url_parse release_master_url
          (ratings_entry artist_anchors release_text release_href data_value) = ([], Inl NameError)"
    using assms
    by (simp add: get_master_url_def ratings_entry_def parse_release_info_def Let_def
        load_global_def module_globals_def)
  then show ?thesis
    by (simp add: export_release_ratings_def)
qed

theorem augmentation_raises_name_error_witness:
  "export_release_ratings sample_urlparse (\<lambda>release_id. Inr PNone) ''discogs-export/release-ratings.json''
     [ratings_entry [(''Artist'', ''/artist/1-Artist'')] ''Album'' ''/release/12345-Album-Name'' ''4'']
     True =
   ([WriteFile ''discogs-export/release-ratings.json''
       (PList [ratings_entry [(''Artist'', ''/artist/1-Artist'')] ''Album''
                 ''/release/12345-Album-Name'' ''4''])],
    Inl NameError)"
  by (rule augmentation_raises_name_error [where parsed =
        "\<lparr>url_scheme = ''https'', url_netloc = ''www.discogs.com'', url_path = ''/release/12345'',
          url_params = [], url_query = [], url_fragment = []\<rparr>"])
     (simp add: sample_urlparse_def URL_BASE_def startswith_def url_short_form_def Let_def)


section \<open>C7: the submitted ratings\<close>

lemma dict_lookup_set:
  "dict_lookup (dict_set k v d) k' = (if key_eq k k' then Some v else dict_lookup d k')"
  by (induction d) (auto simp: key_eq_def)

lemma rate_each_step:
  assumes "rate_each w (entry # entries) ratings = (t, Inr d)"
  shows "\<exists>t1 m t2. lookup_master_mbid w entry = (t1, Inr m) \<and> t = t1 @ t2
           \<and> (if truthy m
               then \<exists>rating. entry_rating entry = Inr rating \<and> hashable m
                      \<and> rate_each w entries (dict_set m (rating * 20) ratings) = (t2, Inr d)
               else rate_each w entries ratings = (t2, Inr d))"
proof -
  from assms obtain t1 m t2 where m: "lookup_master_mbid w entry = (t1, Inr m)" "t = t1 @ t2"
    and rest: "(if truthy m
           then bind (pure (bindE (entry_rating entry) (\<lambda>rating.
                        dict_setitem m (rating * 20) ratings))) (\<lambda>ratings.
                rate_each w entries ratings)
           else rate_each w entries ratings) = (t2, Inr d)"
    by (auto simp: bind_eq_Inr)
  show ?thesis
  proof (cases "truthy m")
    case False
    with m rest show ?thesis by auto
  next
    case True
    with rest obtain rating where "entry_rating entry = Inr rating" "hashable m"
      "rate_each w entries (dict_set m (rating * 20) ratings) = (t2, Inr d)"
      by (cases "entry_rating entry"; cases "hashable m")
         (auto simp: bind_eq_Inr pure_def dict_setitem_def)
    with m True show ?thesis by auto
  qed
qed

lemma rate_each_keeps:
  "rate_each w later ratings = (t, Inr d) \<Longrightarrow>
   \<forall>e \<in> set later. \<forall>m. snd (lookup_master_mbid w e) = Inr m \<and> truthy m \<longrightarrow> \<not> key_eq m k \<Longrightarrow>
   dict_lookup d k = dict_lookup ratings k"
proof (induction later arbitrary: ratings t)
  case Nil
  then show ?case by (simp add: ret_def)
next
  case (Cons e later)
  from rate_each_step [OF Cons.prems(1)] obtain t1 m t2 where
    m: "lookup_master_mbid w e = (t1, Inr m)" and
    rest: "if truthy m
           then \<exists>rating. entry_rating e = Inr rating \<and> hashable m
                  \<and> rate_each w later (dict_set m (rating * 20) ratings) = (t2, Inr d)
           else rate_each w later ratings = (t2, Inr d)"
    by blast
  show ?case
  proof (cases "truthy m")
    case False
    with rest Cons.IH [of ratings t2] Cons.prems(2) show ?thesis by simp
  next
    case True
    with rest obtain rating where
      r: "rate_each w later (dict_set m (rating * 20) ratings) = (t2, Inr d)"
      by auto
    from True m Cons.prems(2) have "\<not> key_eq m k" by simp
    with Cons.IH [OF r] Cons.prems(2) show ?thesis
      by (simp add: dict_lookup_set)
  qed
qed

lemma rate_each_append:
  "rate_each w (earlier @ rest) ratings = (t, Inr d) \<Longrightarrow>
   \<exists>t1 t2 mid. rate_each w earlier ratings = (t1, Inr mid) \<and> rate_each w rest mid = (t2, Inr d)"
proof (induction earlier arbitrary: ratings t)
  case Nil
  then show ?case by (simp add: ret_def)
next
  case (Cons e earlier)
  from rate_each_step [of w e "earlier @ rest" ratings t d] Cons.prems obtain t1 m t2 where
    m: "lookup_master_mbid w e = (t1, Inr m)" and
    rest: "if truthy m
           then \<exists>rating. entry_rating e = Inr rating \<and> hashable m
                  \<and> rate_each w (earlier @ rest) (dict_set m (rating * 20) ratings) = (t2, Inr d)
           else rate_each w (earlier @ rest) ratings = (t2, Inr d)"
    by auto
  show ?case
  proof (cases "truthy m")
    case False
    with rest Cons.IH [of ratings t2] obtain t3 t4 mid where
      "rate_each w earlier ratings = (t3, Inr mid)" "rate_each w rest mid = (t4, Inr d)"
      by auto
    with m False show ?thesis by (auto simp: ret_def)
  next
    case True
    with rest obtain rating where r: "entry_rating e = Inr rating" "hashable m"
      "rate_each w (earlier @ rest) (dict_set m (rating * 20) ratings) = (t2, Inr d)"
      by auto
    from Cons.IH [OF r(3)] obtain t3 t4 mid where
      "rate_each w earlier (dict_set m (rating * 20) ratings) = (t3, Inr mid)"
      "rate_each w rest mid = (t4, Inr d)"
      by auto
    with m True r show ?thesis by (auto simp: pure_def dict_setitem_def)
  qed
qed

lemma last_rating_wins:
  assumes "py_iter discogs_ratings = Inr (earlier @ entry # later)"
    and "release_group_ratings w discogs_ratings = (t, Inr ratings)"
    and "snd (lookup_master_mbid w entry) = Inr master_mbid"
    and "truthy master_mbid"
    and "\<forall>e \<in> set later. \<forall>m. snd (lookup_master_mbid w e) = Inr m \<and> truthy m
           \<longrightarrow> \<not> key_eq m master_mbid"
  shows "\<exists>rating. entry_rating entry = Inr rating
           \<and> dict_lookup ratings master_mbid = Some (rating * 20)
           \<and> import_ratings w discogs_ratings =
               (t @ [SubmitRatings ratings], submit_ratings w ratings)"
proof -
  from assms(1,2) have "rate_each w (earlier @ entry # later) [] = (t, Inr ratings)"
    by (simp add: release_group_ratings_def)
  from rate_each_append [OF this] obtain t1 t2 mid where
    "rate_each w (entry # later) mid = (t2, Inr ratings)"
    by blast
  from rate_each_step [OF this] assms(3,4) obtain t3 rating where
    r: "entry_rating entry = Inr rating"
    "rate_each w later (dict_set master_mbid (rating * 20) mid) = (t3, Inr ratings)"
    by auto
  from rate_each_keeps [OF r(2) assms(5)]
  have "dict_lookup ratings master_mbid = Some (rating * 20)"
    by (simp add: dict_lookup_set key_eq_def)
  moreover have "import_ratings w discogs_ratings =
      (t @ [SubmitRatings ratings], submit_ratings w ratings)"
    using assms(2) by (simp add: import_ratings_def call_def)
  ultimately show ?thesis
    using r(1) by blast
qed


lemma pressings_www:
  "discog_api_url_to_www pressings_world (PStr ''https://www.discogs.com/release/5'') =
     Inr ''https://www.discogs.com/release/5''"
  "discog_api_url_to_www pressings_world (PStr ''https://www.discogs.com/release/6'') =
     Inr ''https://www.discogs.com/release/6''"
  by (simp_all add: discog_api_url_to_www_def pressings_world_def sample_urlparse_def
      sample_urlunparse_def startswith_def Let_def)

lemma pressings_release:
  "lookup_release_mbid pressings_world rated_entry =
     ([BrowseUrls ''https://www.discogs.com/release/5'' [''release-rels'']], Inr (PStr ''rel-5''))"
  "lookup_release_mbid pressings_world second_pressing =
     ([BrowseUrls ''https://www.discogs.com/release/6'' [''release-rels'']], Inr (PStr ''rel-6''))"
  using lookup_hit [OF _ pressings_www(1), of "''release''" "''rel-5''"]
    lookup_hit [OF _ pressings_www(2), of "''release''" "''rel-6''"]
  by (simp_all add: lookup_release_mbid_def rated_entry_fields second_pressing_def
      pressings_world_def)

lemma pressings_master:
  "lookup_master_mbid pressings_world rated_entry =
     ([BrowseUrls ''https://www.discogs.com/release/5'' [''release-rels''],
       GetReleaseById (PStr ''rel-5'') [''release-groups'']], Inr (PStr ''rg-77''))"
  "lookup_master_mbid pressings_world second_pressing =
     ([BrowseUrls ''https://www.discogs.com/release/6'' [''release-rels''],
       GetReleaseById (PStr ''rel-6'') [''release-groups'']], Inr (PStr ''rg-77''))"
proof -
  have get: "get_release_by_id pressings_world release_id incl =
      Inr (PDict [(''release'', PDict [(''id'', release_id),
                                       (''release-group'', PDict [(''id'', PStr ''rg-77'')])])])"
    for release_id incl
    by (simp add: pressings_world_def)
  have second: "subscript second_pressing ''release'' =
      Inr (PDict [(''name'', PStr ''Album''), (''url'', PStr ''https://www.discogs.com/release/6'')])"
    by (simp add: second_pressing_def)
  show "lookup_master_mbid pressings_world rated_entry =
     ([BrowseUrls ''https://www.discogs.com/release/5'' [''release-rels''],
       GetReleaseById (PStr ''rel-5'') [''release-groups'']], Inr (PStr ''rg-77''))"
    by (simp add: lookup_master_mbid_def rated_entry_fields release_then_group_def
        pressings_release get ret_def pure_def)
  show "lookup_master_mbid pressings_world second_pressing =
     ([BrowseUrls ''https://www.discogs.com/release/6'' [''release-rels''],
       GetReleaseById (PStr ''rel-6'') [''release-groups'']], Inr (PStr ''rg-77''))"
    by (simp add: lookup_master_mbid_def second release_then_group_def
        pressings_release get ret_def pure_def)
qed

lemma pressings_ratings:
  "entry_rating rated_entry = Inr 4" "entry_rating second_pressing = Inr 2"
  by (simp_all add: entry_rating_def rated_entry_def second_pressing_def int_of_str_samples)

lemma pressings_submit: "submit_ratings pressings_world ratings = Inr ()"
  by (simp add: pressings_world_def)

lemma pressings_4_then_2:
  "release_group_ratings pressings_world (PList [rated_entry, second_pressing]) =
     ([BrowseUrls ''https://www.discogs.com/release/5'' [''release-rels''],
       GetReleaseById (PStr ''rel-5'') [''release-groups''],
       BrowseUrls ''https://www.discogs.com/release/6'' [''release-rels''],
       GetReleaseById (PStr ''rel-6'') [''release-groups'']],
      Inr [(PStr ''rg-77'', 40)])"
  by (simp add: release_group_ratings_def pressings_master pressings_ratings dict_setitem_def
      key_eq_def ret_def)

lemma pressings_2_then_4:
  "release_group_ratings pressings_world (PList [second_pressing, rated_entry]) =
     ([BrowseUrls ''https://www.discogs.com/release/6'' [''release-rels''],
       GetReleaseById (PStr ''rel-6'') [''release-groups''],
       BrowseUrls ''https://www.discogs.com/release/5'' [''release-rels''],
       GetReleaseById (PStr ''rel-5'') [''release-groups'']],
      Inr [(PStr ''rg-77'', 80)])"
  by (simp add: release_group_ratings_def pressings_master pressings_ratings dict_setitem_def
      key_eq_def ret_def)

lemma rate_each_completes:
  "\<forall>e \<in> set entries. \<exists>t m. lookup_master_mbid w e = (t, Inr m)
       \<and> (truthy m \<longrightarrow> hashable m \<and> (\<exists>r. entry_rating e = Inr r)) \<Longrightarrow>
   \<exists>t ratings'. rate_each w entries ratings = (t, Inr ratings')"
proof (induction entries arbitrary: ratings)
  case Nil
  then show ?case by (simp add: ret_def)
next
  case (Cons e entries)
  from Cons.prems obtain t m where m: "lookup_master_mbid w e = (t, Inr m)"
    "truthy m \<longrightarrow> hashable m \<and> (\<exists>r. entry_rating e = Inr r)"
    by auto
  show ?case
  proof (cases "truthy m")
    case False
    from Cons.IH [of ratings] Cons.prems obtain t2 d where
      "rate_each w entries ratings = (t2, Inr d)"
      by auto
    with m False show ?thesis by simp
  next
    case True
    with m obtain r where r: "hashable m" "entry_rating e = Inr r"
      by auto
    from Cons.IH [of "dict_set m (r * 20) ratings"] Cons.prems obtain t2 d where
      "rate_each w entries (dict_set m (r * 20) ratings) = (t2, Inr d)"
      by auto
    with m True r show ?thesis by (simp add: dict_setitem_def)
  qed
qed

text \<open>
  C7, amended. The ratings are collected in a dictionary keyed by the target identifier,
  so of several records that resolve to one identifier the last one wins; and an
  exception while a record is processed ends the import before anything is submitted.
  When no record of the file raises (the resolution of every record returns, and every
  record that resolves has a hashable identifier and an integer rating), the
  comprehension completes and its dictionary is handed to \<open>submit_ratings\<close>; in it,
  every record that resolves to a target identifier to which no later record of the
  file resolves has its identifier mapped to its rating times 20. In the witness a
  source rating of 4 is submitted as 80.
\<close>

theorem submitted_rating_is_last_times_20:
  assumes "py_iter discogs_ratings = Inr (earlier @ entry # later)"
    and "\<forall>e \<in> set (earlier @ entry # later).
           \<exists>t m. lookup_master_mbid w e = (t, Inr m)
             \<and> (truthy m \<longrightarrow> hashable m \<and> (\<exists>r. entry_rating e = Inr r))"
    and "snd (lookup_master_mbid w entry) = Inr master_mbid"
    and "truthy master_mbid"
    and "\<forall>e \<in> set later. \<forall>m. snd (lookup_master_mbid w e) = Inr m \<and> truthy m
           \<longrightarrow> \<not> key_eq m master_mbid"
  shows "\<exists>t ratings rating.
           release_group_ratings w discogs_ratings = (t, Inr ratings)
           \<and> import_ratings w discogs_ratings =
               (t @ [SubmitRatings ratings], submit_ratings w ratings)
           \<and> entry_rating entry = Inr rating
           \<and> dict_lookup ratings master_mbid = Some (rating * 20)"
proof -
  from rate_each_completes [OF assms(2), of "[]"] obtain t ratings where
    "rate_each w (earlier @ entry # later) [] = (t, Inr ratings)"
    by blast
  with assms(1) have run: "release_group_ratings w discogs_ratings = (t, Inr ratings)"
    by (simp add: release_group_ratings_def)
  from last_rating_wins [OF assms(1) run assms(3,4,5)] run show ?thesis
    by blast
qed

lemma pressings_unlinked:
  "lookup_master_mbid pressings_world unlinked_entry =
     ([BrowseUrls ''https://www.discogs.com/release/9'' [''release-rels'']], Inl KeyError)"
proof -
  have www: "discog_api_url_to_www pressings_world (PStr ''https://www.discogs.com/release/9'') =
      Inr ''https://www.discogs.com/release/9''"
    by (simp add: discog_api_url_to_www_def pressings_world_def sample_urlparse_def
        sample_urlunparse_def startswith_def Let_def)
  have fields: "subscript unlinked_entry ''release'' =
      Inr (PDict [(''name'', PStr ''Single''), (''url'', PStr ''https://www.discogs.com/release/9'')])"
    "subscript unlinked_entry ''artists'' = Inr (PList [])"
    "subscript unlinked_entry ''artist'' = Inl KeyError"
    by (simp_all add: unlinked_entry_def)
  have release: "lookup_release_mbid pressings_world unlinked_entry =
      ([BrowseUrls ''https://www.discogs.com/release/9'' [''release-rels'']], Inr PNone)"
    using lookup_miss [OF www, of "''release''"]
    by (simp add: lookup_release_mbid_def fields pressings_world_def)
  have artists: "lookup_artist_mbids pressings_world unlinked_entry = ([], Inr [])"
    by (simp add: lookup_artist_mbids_def fields ret_def)
  show ?thesis
    by (simp add: lookup_master_mbid_def fields release_then_group_def fuzzy_search_def
        release artists search_no_artist candidates_header_def ret_def)
qed

lemma pressings_4_then_unlinked:
  "release_group_ratings pressings_world (PList [rated_entry, unlinked_entry]) =
     ([BrowseUrls ''https://www.discogs.com/release/5'' [''release-rels''],
       GetReleaseById (PStr ''rel-5'') [''release-groups''],
       BrowseUrls ''https://www.discogs.com/release/9'' [''release-rels'']],
      Inl KeyError)"
  by (simp add: release_group_ratings_def pressings_master pressings_unlinked pressings_ratings
      dict_setitem_def key_eq_def ret_def)

theorem submitted_rating_is_last_times_20_witness:
  "release_group_ratings pressings_world (PList [second_pressing, rated_entry]) =
     ([BrowseUrls ''https://www.discogs.com/release/6'' [''release-rels''],
       GetReleaseById (PStr ''rel-6'') [''release-groups''],
       BrowseUrls ''https://www.discogs.com/release/5'' [''release-rels''],
       GetReleaseById (PStr ''rel-5'') [''release-groups'']],
      Inr [(PStr ''rg-77'', 80)])
   \<and> import_ratings pressings_world (PList [second_pressing, rated_entry]) =
       ([BrowseUrls ''https://www.discogs.com/release/6'' [''release-rels''],
         GetReleaseById (PStr ''rel-6'') [''release-groups''],
         BrowseUrls ''https://www.discogs.com/release/5'' [''release-rels''],
         GetReleaseById (PStr ''rel-5'') [''release-groups''],
         SubmitRatings [(PStr ''rg-77'', 80)]],
        Inr ())
   \<and> entry_rating rated_entry = Inr 4
   \<and> dict_lookup [(PStr ''rg-77'', 80)] (PStr ''rg-77'') = Some (4 * 20)"
  using submitted_rating_is_last_times_20 [of "PList [second_pressing, rated_entry]"
      "[second_pressing]" rated_entry "[]" pressings_world "PStr ''rg-77''"]
  by (auto simp: pressings_master pressings_ratings pressings_submit pressings_2_then_4)

text \<open>
  C7, as stated, fails: two pressings of one album, rated 4 and 2 in this order, resolve
  to the same release group; the first record resolves and its rating is 4, but the
  rating submitted for its release group is 40, the second record's, not 80. And when
  the first record is followed by one that no strategy resolves, the import raises (the
  \<open>KeyError\<close> of the candidates' report) and submits nothing.
\<close>

theorem every_record_times_20_counterexample:
  "snd (lookup_master_mbid pressings_world rated_entry) = Inr (PStr ''rg-77'')
   \<and> entry_rating rated_entry = Inr 4
   \<and> import_ratings pressings_world (PList [rated_entry, second_pressing]) =
       ([BrowseUrls ''https://www.discogs.com/release/5'' [''release-rels''],
         GetReleaseById (PStr ''rel-5'') [''release-groups''],
         BrowseUrls ''https://www.discogs.com/release/6'' [''release-rels''],
         GetReleaseById (PStr ''rel-6'') [''release-groups''],
         SubmitRatings [(PStr ''rg-77'', 40)]],
        Inr ())
   \<and> dict_lookup [(PStr ''rg-77'', 40)] (PStr ''rg-77'') \<noteq> Some (4 * 20)
   \<and> import_ratings pressings_world (PList [rated_entry, unlinked_entry]) =
       ([BrowseUrls ''https://www.discogs.com/release/5'' [''release-rels''],
         GetReleaseById (PStr ''rel-5'') [''release-groups''],
         BrowseUrls ''https://www.discogs.com/release/9'' [''release-rels'']],
        Inl KeyError)"
  by (simp add: import_ratings_def pressings_4_then_2 pressings_4_then_unlinked pressings_master
      pressings_ratings pressings_submit key_eq_def call_def)


end
